theory Spec2Isabelle
  imports Main "HOL-Library.Sublist" "HOL-Library.AList"
begin

section \<open>Data model of \<open>packages/core/src/network.js\<close>\<close>

text \<open>
  Byte buffers are lists of 8-bit characters, so \<open>length\<close> is the byte length that
  JavaScript's \<open>Buffer.length\<close> reports. JavaScript objects with string keys whose order
  is observable (\<open>Map\<close>, header objects) are association lists; \<open>AList.update\<close> keeps
  the position of an existing key and appends a new one, as \<open>Map.set\<close> does.
\<close>

type_synonym buffer = string

type_synonym headers = "(string \<times> string) list"

text \<open>A cached or captured resource, as \<open>createResource\<close> and \<open>intercept.getResource\<close> hand it over.\<close>

record resource =
  res_url :: string
  res_content :: buffer
  res_mimetype :: "string option"
  res_sha :: string
  res_status :: "nat option"
  res_headers :: "(string \<times> string list) list option"
  res_root :: bool
  res_provided :: bool

text \<open>The reply of a protocol command; only \<open>Network.getResponseBody\<close> has fields that are read.\<close>

record cdp_result =
  result_body :: string
  result_base64Encoded :: bool

text \<open>The \<open>params\<close> object of an outbound command: the \<open>requestId\<close> and the rest of the object.\<close>

datatype payload =
    FailRequest string
  | FulfillRequest nat string headers
  | ContinueRequest
  | ContinueWithAuth string "string option" "string option"
  | GetResponseBody

record params =
  p_requestId :: "string option"
  p_payload :: payload

text \<open>
  A protocol session: the flag the catch block of \<open>sendResponseResource\<close> reads and the
  answer of \<open>session.send\<close> to a command (\<open>Inl\<close> the message of the error it rejects with).
\<close>

record session =
  closing :: bool
  isDocument :: bool
  reply :: "string \<Rightarrow> params \<Rightarrow> string + cdp_result"

text \<open>
  \<open>request.response\<close>. The \<open>buffer\<close> closure that \<open>_handleResponseReceived\<close> attaches
  captures the session and the request id of the event; both are stored here.
\<close>

record response =
  resp_status :: nat
  resp_mimeType :: "string option"
  resp_headers :: headers
  buffer_session :: session
  buffer_requestId :: string

text \<open>The \<open>request\<close> object of a protocol event, before \<open>_handleRequest\<close> decorates it.\<close>

record cdp_request =
  rq_url :: string
  rq_method :: string
  rq_headers :: headers

text \<open>A request record of the registry: the event's request with the fields \<open>_handleRequest\<close> sets.\<close>

datatype request = Request
  (req_url: string)
  (req_method: string)
  (req_headers: headers)
  (req_type: "string option")
  (req_requestId: string)
  (req_interceptId: string)
  (req_redirectChain: "request list")
  (req_response: "response option")

record requestWillBeSent_event =
  rwbs_requestId :: string
  rwbs_request :: cdp_request
  rwbs_type :: "string option"
  rwbs_redirectResponse :: bool

record requestPaused_event =
  rp_networkId :: string
  rp_requestId :: string
  rp_resourceType :: string
  rp_request :: cdp_request

record authRequired_event =
  ar_requestId :: string

record responseReceived_event =
  rr_requestId :: string
  rr_status :: nat
  rr_mimeType :: "string option"
  rr_headers :: headers

record loadingFailed_event =
  lf_requestId :: string
  lf_errorText :: string

text \<open>Constructor options: \<open>options.authorization\<close> and \<open>options.intercept\<close>.\<close>

record authorization =
  username :: "string option"
  password :: "string option"

record intercept =
  disallowedHostnames :: "string list"
  allowedHostnames :: "string list"
  disableCache :: bool
  enableJavaScript :: bool
  getResource :: "string \<Rightarrow> resource option"

record options =
  opt_authorization :: "authorization option"
  captureMockedServiceWorker :: bool
  opt_intercept :: "intercept option"

text \<open>
  The collaborators imported from other modules (\<open>./utils.js\<close>, \<open>mime-types\<close>,
  \<open>@percy/client/utils\<close>, \<open>@percy/logger\<close>, Node's \<open>Buffer\<close> and \<open>URL\<close>) are parameters.
  \<open>url_origin_pathname\<close> is \<open>new URL(url)\<close> followed by \<open>origin + pathname\<close>, \<open>None\<close>
  when the constructor throws; \<open>makeRequest\<close> returns \<open>Inl\<close> when the request rejects.
\<close>

record env =
  hostnameMatches :: "string list \<Rightarrow> string \<Rightarrow> bool"
  normalizeURL :: "string \<Rightarrow> string"
  mime_lookup :: "string \<Rightarrow> string option"
  url_origin_pathname :: "string \<Rightarrow> string option"
  createResource :: "string \<Rightarrow> buffer \<Rightarrow> string option \<Rightarrow> nat \<Rightarrow> (string \<times> string list) list \<Rightarrow> resource"
  makeRequest :: "string \<Rightarrow> headers \<Rightarrow> string + buffer"
  base64 :: "string \<Rightarrow> string"
  buffer_from :: "string \<Rightarrow> string \<Rightarrow> buffer"
  shouldLog_debug :: bool

text \<open>The private fields of the \<open>Network\<close> class.\<close>

record network =
  requests :: "(string \<times> request) list"
  pending :: "string \<rightharpoonup> requestWillBeSent_event"
  authentications :: "string set"
  aborted :: "string set"
  sent_latch :: "string set"
  response_latch :: "string set"

text \<open>What a handler does to the outside: a command handed to \<open>session.send\<close> with the
  session's answer, a direct HTTP request, a call of \<open>intercept.saveResource\<close>.\<close>

datatype effect =
    Send string params "string + cdp_result"
  | DirectRequest string headers
  | SaveResource resource

section \<open>Constants and string helpers\<close>

definition MAX_RESOURCE_SIZE :: nat where
  "MAX_RESOURCE_SIZE = 25 * (1024 ^ 2)"

definition ALLOWED_STATUSES :: "nat list" where
  "ALLOWED_STATUSES = [200, 201, 301, 302, 304, 307, 308]"

definition ALLOWED_RESOURCES :: "string list" where
  "ALLOWED_RESOURCES = [''Document'', ''Stylesheet'', ''Image'', ''Media'', ''Font'', ''Other'']"

definition ABORTED_MESSAGE :: string where
  "ABORTED_MESSAGE = ''Request was aborted by browser''"

text \<open>\<open>String.prototype.includes\<close>.\<close>

primrec includes_str :: "string \<Rightarrow> string \<Rightarrow> bool" where
  "includes_str [] p = (p = [])"
| "includes_str (c # cs) p = (prefix p (c # cs) \<or> includes_str cs p)"

text \<open>\<open>String.prototype.startsWith\<close>.\<close>

definition startsWith :: "string \<Rightarrow> string \<Rightarrow> bool" where
  "startsWith s p = prefix p s"

text \<open>\<open>Array.prototype.join\<close>.\<close>

fun join :: "string \<Rightarrow> string list \<Rightarrow> string" where
  "join sep [] = []"
| "join sep [x] = x"
| "join sep (x # y # ys) = x @ sep @ join sep (y # ys)"

text \<open>\<open>String.prototype.split\<close> with a one-character separator.\<close>

fun split_on :: "char \<Rightarrow> string \<Rightarrow> string list" where
  "split_on c [] = [[]]"
| "split_on c (x # xs) =
     (if x = c then [] # split_on c xs
      else (case split_on c xs of [] \<Rightarrow> [[x]] | w # ws \<Rightarrow> (x # w) # ws))"

text \<open>\<open>String.prototype.toLowerCase\<close> on ASCII letters (header names).\<close>

definition toLowerCase :: "string \<Rightarrow> string" where
  "toLowerCase s = map (\<lambda>c. if (65::nat) \<le> of_char c \<and> of_char c \<le> (90::nat)
                              then char_of (of_char c + (32::nat)) else c) s"

text \<open>Truthiness of an optional string: \<open>undefined\<close> and \<open>''\<close> are falsy.\<close>

fun truthy :: "string option \<Rightarrow> bool" where
  "truthy None = False"
| "truthy (Some s) = (s \<noteq> [])"

section \<open>Safe send\<close>

definition isAborted :: "network \<Rightarrow> string \<Rightarrow> bool" where
  "isAborted net requestId = (requestId \<in> aborted net)"

text \<open>\<open>session.send(method, params)\<close>: the answer and the record of the command on the wire.\<close>

definition session_send :: "session \<Rightarrow> string \<Rightarrow> params \<Rightarrow> (string + cdp_result) \<times> effect list" where
  "session_send s m p = (reply s m p, [Send m p (reply s m p)])"

text \<open>
  \<open>Network.send\<close>. The guard runs when \<open>params.requestId\<close> is truthy; the throw is \<open>Inl\<close>
  with no command on the wire.
\<close>

definition send :: "network \<Rightarrow> session \<Rightarrow> string \<Rightarrow> params \<Rightarrow> (string + cdp_result) \<times> effect list" where
  "send net s m p =
     (case p_requestId p of
        Some rid \<Rightarrow>
          if rid \<noteq> [] \<and> isAborted net rid then (Inl ABORTED_MESSAGE, [])
          else session_send s m p
      | None \<Rightarrow> session_send s m p)"

section \<open>Interception decider\<close>

text \<open>\<open>originURL\<close>: the normalized URL of the first request of the redirect chain, or of the request itself.\<close>

definition originURL :: "env \<Rightarrow> request \<Rightarrow> string" where
  "originURL e request =
     normalizeURL e (case req_redirectChain request of [] \<Rightarrow> req_url request | r # _ \<Rightarrow> req_url r)"

text \<open>\<open>resource?.root\<close>.\<close>

definition is_root :: "resource option \<Rightarrow> bool" where
  "is_root resource = (case resource of None \<Rightarrow> False | Some r \<Rightarrow> res_root r)"

definition fulfill_params :: "env \<Rightarrow> request \<Rightarrow> resource \<Rightarrow> params" where
  "fulfill_params e request r =
     \<lparr>p_requestId = Some (req_interceptId request),
      p_payload = FulfillRequest
        (case res_status r of None \<Rightarrow> 200 | Some n \<Rightarrow> if n = 0 then 200 else n)
        (base64 e (res_content r))
        (map (\<lambda>(k, v). (toLowerCase k, join '','' v))
             (case res_headers r of None \<Rightarrow> [] | Some h \<Rightarrow> h))\<rparr>"

text \<open>The command that the \<open>if\<close> chain in the try block of \<open>sendResponseResource\<close> hands to \<open>send\<close>.\<close>

definition response_command :: "env \<Rightarrow> intercept \<Rightarrow> request \<Rightarrow> string \<times> params" where
  "response_command e ic request =
     (let url = originURL e request;
          resource = getResource ic url
      in if \<not> is_root resource \<and> hostnameMatches e (disallowedHostnames ic) url
         then (''Fetch.failRequest'',
               \<lparr>p_requestId = Some (req_interceptId request), p_payload = FailRequest ''Aborted''\<rparr>)
         else (case resource of
                 Some r \<Rightarrow>
                   if res_root r \<or> res_provided r \<or> \<not> disableCache ic
                   then (''Fetch.fulfillRequest'', fulfill_params e request r)
                   else (''Fetch.continueRequest'',
                         \<lparr>p_requestId = Some (req_interceptId request), p_payload = ContinueRequest\<rparr>)
               | None \<Rightarrow>
                   (''Fetch.continueRequest'',
                    \<lparr>p_requestId = Some (req_interceptId request), p_payload = ContinueRequest\<rparr>)))"

text \<open>
  The catch block. The handler was suspended at the awaited send and, on the abort path,
  for one more tick; \<open>late\<close> holds the request ids that \<open>_handleLoadingFailed\<close> added to
  the Aborted set in the meantime, so the re-check and the guard of the last send read
  \<open>aborted net \<union> late\<close>. The rejection of the last send is swallowed.
\<close>

definition sendResponseResource_catch ::
  "network \<Rightarrow> string set \<Rightarrow> request \<Rightarrow> session \<Rightarrow> string \<Rightarrow> effect list" where
  "sendResponseResource_catch net late request s msg =
     (let net' = net\<lparr>aborted := aborted net \<union> late\<rparr>
      in if closing s \<and> includes_str msg ''close'' then []
         else if (msg = ABORTED_MESSAGE \<or> includes_str msg ''Invalid InterceptionId'')
                 \<and> isAborted net' (req_requestId request) then []
         else snd (send net' s ''Fetch.failRequest''
                     \<lparr>p_requestId = Some (req_interceptId request), p_payload = FailRequest ''Failed''\<rparr>))"

definition sendResponseResource ::
  "env \<Rightarrow> intercept \<Rightarrow> network \<Rightarrow> string set \<Rightarrow> request \<Rightarrow> session \<Rightarrow> effect list" where
  "sendResponseResource e ic net late request s =
     (case response_command e ic request of
        (m, p) \<Rightarrow>
          (case send net s m p of
             (Inr _, effs) \<Rightarrow> effs
           | (Inl msg, effs) \<Rightarrow> effs @ sendResponseResource_catch net late request s msg))"

section \<open>Response capturer\<close>

definition makeDirectRequest :: "env \<Rightarrow> options \<Rightarrow> request \<Rightarrow> (string + buffer) \<times> effect list" where
  "makeDirectRequest e opts request =
     (let hs = (case opt_authorization opts of
                  Some a \<Rightarrow>
                    if truthy (username a)
                    then AList.update ''Authorization''
                           (''Basic '' @ base64 e (join '':''
                              [case username a of Some u \<Rightarrow> u | None \<Rightarrow> [],
                               case password a of Some p \<Rightarrow> p | None \<Rightarrow> []]))
                           (req_headers request)
                    else req_headers request
                | None \<Rightarrow> req_headers request)
      in (makeRequest e (req_url request) hs, [DirectRequest (req_url request) hs]))"

text \<open>\<open>response.buffer()\<close>: the guarded \<open>Network.getResponseBody\<close> and the decoding of its reply.\<close>

definition response_buffer :: "env \<Rightarrow> network \<Rightarrow> response \<Rightarrow> (string + buffer) \<times> effect list" where
  "response_buffer e net resp =
     (case send net (buffer_session resp) ''Network.getResponseBody''
             \<lparr>p_requestId = Some (buffer_requestId resp), p_payload = GetResponseBody\<rparr> of
        (Inl err, effs) \<Rightarrow> (Inl err, effs)
      | (Inr result, effs) \<Rightarrow>
          (Inr (buffer_from e (result_body result) (if result_base64Encoded result then ''base64'' else ''utf-8'')), effs))"

text \<open>\<open>s?.includes(p)\<close> on an optional string.\<close>

definition opt_includes :: "string option \<Rightarrow> string \<Rightarrow> bool" where
  "opt_includes s p = (case s of None \<Rightarrow> False | Some x \<Rightarrow> includes_str x p)"

text \<open>The three ways control leaves the try block of \<open>saveResponseResource\<close>: a \<open>return\<close>
  with its log line, an exception that the catch block logs, or the end of the block with
  the resource that \<open>createResource\<close> built.\<close>

datatype capture_outcome = Skipped string | Threw string | Captured resource

definition effective_mime :: "response \<Rightarrow> string option \<Rightarrow> string option" where
  "effective_mime resp detectedMime =
     (if resp_mimeType resp = Some ''text/plain'' \<and> truthy detectedMime then detectedMime
      else resp_mimeType resp)"

definition capture ::
  "env \<Rightarrow> options \<Rightarrow> intercept \<Rightarrow> network \<Rightarrow> request \<Rightarrow> string \<Rightarrow> capture_outcome \<times> effect list" where
  "capture e opts ic net request url =
     (case req_response request of
        None \<Rightarrow> (Skipped ''- Skipping no response'', [])
      | Some resp \<Rightarrow>
          if \<not> hostnameMatches e (allowedHostnames ic) url
          then (Skipped ''- Skipping remote resource'', [])
          else (case response_buffer e net resp of
                  (Inl err, effs) \<Rightarrow> (Threw err, effs)
                | (Inr body, effs) \<Rightarrow>
                    if length body = 0 then (Skipped ''- Skipping empty response'', effs)
                    else if length body > MAX_RESOURCE_SIZE
                    then (Skipped ''- Skipping resource larger than 25MB'', effs)
                    else if resp_status resp \<notin> set ALLOWED_STATUSES
                    then (Skipped ''- Skipping disallowed status'', effs)
                    else if \<not> enableJavaScript ic \<and>
                            \<not> (case req_type request of None \<Rightarrow> False
                               | Some t \<Rightarrow> t \<in> set ALLOWED_RESOURCES)
                    then (Skipped ''- Skipping disallowed resource type'', effs)
                    else (case url_origin_pathname e url of
                            None \<Rightarrow> (Threw ''Invalid URL'', effs)
                          | Some urlWithoutSearchParams \<Rightarrow>
                              (let detectedMime = mime_lookup e urlWithoutSearchParams;
                                   mimeType = effective_mime resp detectedMime;
                                   hs = map (\<lambda>(k, v). (k, split_on (CHR 0x0A) v)) (resp_headers resp)
                               in if opt_includes mimeType ''font''
                                     \<or> (truthy detectedMime \<and> opt_includes detectedMime ''font'')
                                  then (case makeDirectRequest e opts request of
                                          (Inl err, effs') \<Rightarrow> (Threw err, effs @ effs')
                                        | (Inr body', effs') \<Rightarrow>
                                            (Captured (createResource e url body' mimeType (resp_status resp) hs),
                                             effs @ effs'))
                                  else (Captured (createResource e url body mimeType (resp_status resp) hs),
                                        effs)))))"

text \<open>The condition that guards the try block.\<close>

definition capture_needed :: "intercept \<Rightarrow> resource option \<Rightarrow> bool" where
  "capture_needed ic resource =
     (case resource of None \<Rightarrow> True
      | Some r \<Rightarrow> \<not> res_root r \<and> \<not> res_provided r \<and> disableCache ic)"

text \<open>\<open>if (resource) network.intercept.saveResource(resource)\<close>.\<close>

definition save_if_present :: "resource option \<Rightarrow> effect list" where
  "save_if_present resource = (case resource of None \<Rightarrow> [] | Some r \<Rightarrow> [SaveResource r])"

definition saveResponseResource ::
  "env \<Rightarrow> options \<Rightarrow> intercept \<Rightarrow> network \<Rightarrow> request \<Rightarrow> effect list" where
  "saveResponseResource e opts ic net request =
     (let url = originURL e request;
          resource = getResource ic url
      in if capture_needed ic resource
         then (case capture e opts ic net request url of
                 (Skipped _, effs) \<Rightarrow> effs
               | (Threw _, effs) \<Rightarrow> effs @ save_if_present resource
               | (Captured r, effs) \<Rightarrow> effs @ save_if_present (Some r))
         else save_if_present resource)"

section \<open>Request registry and event handlers\<close>

definition forgetRequest :: "string \<Rightarrow> string \<Rightarrow> bool \<Rightarrow> network \<Rightarrow> network" where
  "forgetRequest requestId interceptId keepPending net =
     net\<lparr>requests := AList.delete requestId (requests net),
         authentications := authentications net - {interceptId},
         pending := (if keepPending then pending net else (pending net)(requestId := None))\<rparr>"

text \<open>\<open>_forgetRequest(request)\<close> applied to a request record.\<close>

definition forget :: "request \<Rightarrow> bool \<Rightarrow> network \<Rightarrow> network" where
  "forget request keepPending net =
     forgetRequest (req_requestId request) (req_interceptId request) keepPending net"

definition handleAuthRequired ::
  "options \<Rightarrow> session \<Rightarrow> authRequired_event \<Rightarrow> network \<Rightarrow> network \<times> effect list" where
  "handleAuthRequired opts s ev net =
     (let user = (case opt_authorization opts of Some a \<Rightarrow> username a | None \<Rightarrow> None);
          pass = (case opt_authorization opts of Some a \<Rightarrow> password a | None \<Rightarrow> None);
          requestId = ar_requestId ev;
          (answer, net') =
            (if requestId \<in> authentications net then (''CancelAuth'', net)
             else if truthy user \<or> truthy pass
             then (''ProvideCredentials'',
                   net\<lparr>authentications := insert requestId (authentications net)\<rparr>)
             else (''Default'', net))
      in (net', snd (send net' s ''Fetch.continueWithAuth''
                       \<lparr>p_requestId = Some requestId,
                        p_payload = ContinueWithAuth answer user pass\<rparr>)))"

text \<open>
  \<open>_handleRequest\<close>. The event is the \<open>requestWillBeSent\<close> payload with \<open>resourceType\<close> and
  \<open>interceptId\<close> spread over it. Without a session or an \<open>intercept\<close> object the call of
  \<open>sendResponseResource\<close> ends in a \<open>TypeError\<close> before any command leaves.

  The source does not build a record: it sets \<open>type\<close>, \<open>requestId\<close>, \<open>interceptId\<close> and
  \<open>redirectChain\<close> on the event's own \<open>request\<close> object and leaves its other properties as
  they are. Request objects are values here, so the \<open>response\<close> that object already
  carries is the argument \<open>attached\<close>.
\<close>

definition handleRequest ::
  "env \<Rightarrow> intercept option \<Rightarrow> string set \<Rightarrow> session option \<Rightarrow> requestWillBeSent_event \<Rightarrow>
   string option \<Rightarrow> string \<Rightarrow> bool \<Rightarrow> response option \<Rightarrow> network \<Rightarrow> network \<times> effect list" where
  "handleRequest e ico late so ev resourceType interceptId serviceWorker attached net =
     (let requestId = rwbs_requestId ev;
          (redirectChain, net1) =
            (if rwbs_redirectResponse ev
             then (case map_of (requests net) requestId of
                     Some req \<Rightarrow> (req_redirectChain req @ [req], forget req True net)
                   | None \<Rightarrow> ([], net))
             else ([], net));
          request = Request (rq_url (rwbs_request ev)) (rq_method (rwbs_request ev))
                      (rq_headers (rwbs_request ev)) resourceType requestId interceptId
                      redirectChain attached;
          net2 = net1\<lparr>requests := AList.update requestId request (requests net1)\<rparr>
      in if \<not> serviceWorker
         then (case (ico, so) of
                 (Some ic, Some s) \<Rightarrow> (net2, sendResponseResource e ic net2 late request s)
               | _ \<Rightarrow> (net2, []))
         else (net2, []))"

text \<open>
  The \<open>response\<close> on the request object of a Pending entry when the pause is handled. With
  \<open>captureMockedServiceWorker\<close> the handler of \<open>requestWillBeSent\<close> has put that very
  object into the registry under the same id, so what \<open>_handleResponseReceived\<close> attached
  to the registry's record since is on it. Otherwise the object has been nowhere but in
  the Pending map and carries no response.
\<close>

definition pending_response :: "options \<Rightarrow> network \<Rightarrow> string \<Rightarrow> response option" where
  "pending_response opts net requestId =
     (if captureMockedServiceWorker opts
      then (case map_of (requests net) requestId of
              Some r \<Rightarrow> req_response r
            | None \<Rightarrow> None)
      else None)"

text \<open>The body of \<open>_handleRequestPaused\<close> after its await of the \<open>requestWillBeSent\<close> latch.\<close>

definition handleRequestPaused ::
  "env \<Rightarrow> options \<Rightarrow> string set \<Rightarrow> session \<Rightarrow> requestPaused_event \<Rightarrow>
   network \<Rightarrow> network \<times> effect list" where
  "handleRequestPaused e opts late s ev net =
     (let requestId = rp_networkId ev;
          interceptId = rp_requestId ev;
          resourceType = rp_resourceType ev;
          pend = pending net requestId;
          net1 = net\<lparr>pending := (pending net)(requestId := None)\<rparr>
      in case pend of
           None \<Rightarrow> (net1, [])
         | Some p \<Rightarrow>
             if rq_url (rwbs_request p) = rq_url (rp_request ev)
                \<and> rq_method (rwbs_request p) = rq_method (rp_request ev)
             then handleRequest e (opt_intercept opts) late (Some s) p (Some resourceType)
                    interceptId False (pending_response opts net requestId) net1
             else (net1, []))"

definition handleRequestWillBeSent ::
  "env \<Rightarrow> options \<Rightarrow> requestWillBeSent_event \<Rightarrow> network \<Rightarrow> network \<times> effect list" where
  "handleRequestWillBeSent e opts ev net =
     (let requestId = rwbs_requestId ev
      in if startsWith (rq_url (rwbs_request ev)) ''data:'' then (net, [])
         else (let (net1, effs) =
                     (case opt_intercept opts of
                        Some ic \<Rightarrow>
                          (let n = net\<lparr>pending := (pending net)(requestId \<mapsto> ev)\<rparr>
                           in if captureMockedServiceWorker opts
                              then handleRequest e (Some ic) {} None ev (rwbs_type ev) requestId True None n
                              else (n, []))
                      | None \<Rightarrow> (net, []))
               in (net1\<lparr>sent_latch := insert requestId (sent_latch net1)\<rparr>, effs)))"

definition with_response :: "request \<Rightarrow> response \<Rightarrow> request" where
  "with_response request resp =
     (case request of Request u m h t rid iid chain _ \<Rightarrow> Request u m h t rid iid chain (Some resp))"

text \<open>The body of \<open>_handleResponseReceived\<close> after its await of the \<open>requestWillBeSent\<close> latch.\<close>

definition handleResponseReceived :: "session \<Rightarrow> responseReceived_event \<Rightarrow> network \<Rightarrow> network" where
  "handleResponseReceived s ev net =
     (let requestId = rr_requestId ev
      in case map_of (requests net) requestId of
           None \<Rightarrow> net
         | Some request \<Rightarrow>
             net\<lparr>requests := AList.update requestId
                    (with_response request
                       \<lparr>resp_status = rr_status ev, resp_mimeType = rr_mimeType ev,
                        resp_headers = rr_headers ev, buffer_session = s,
                        buffer_requestId = requestId\<rparr>)
                    (requests net),
                 response_latch := insert requestId (response_latch net)\<rparr>)"

definition handleEventSourceMessageReceived :: "string \<Rightarrow> network \<Rightarrow> network" where
  "handleEventSourceMessageReceived requestId net =
     (case map_of (requests net) requestId of
        None \<Rightarrow> net
      | Some request \<Rightarrow> forget request False net)"

text \<open>The body of \<open>_handleLoadingFinished\<close> after its await of the \<open>responseReceived\<close> latch.\<close>

definition handleLoadingFinished ::
  "env \<Rightarrow> options \<Rightarrow> string \<Rightarrow> network \<Rightarrow> network \<times> effect list" where
  "handleLoadingFinished e opts requestId net =
     (case map_of (requests net) requestId of
        None \<Rightarrow> (net, [])
      | Some request \<Rightarrow>
          (case opt_intercept opts of
             None \<Rightarrow> (net, [])
           | Some ic \<Rightarrow> (forget request False net, saveResponseResource e opts ic net request)))"

definition handleLoadingFailed :: "loadingFailed_event \<Rightarrow> network \<Rightarrow> network" where
  "handleLoadingFailed ev net =
     (case map_of (requests net) (lf_requestId ev) of
        None \<Rightarrow> net
      | Some request \<Rightarrow>
          forget request False
            (if lf_errorText ev = ''net::ERR_ABORTED''
             then net\<lparr>aborted := insert (req_requestId request) (aborted net)\<rparr>
             else net))"

section \<open>Event dispatch and lifecycle latches\<close>

text \<open>
  The scheduling is cooperative and single-threaded: a handler runs when its event arrives,
  suspends at the latch it awaits first, and is resumed when that latch is resolved. From
  there on a handler body is one step of the model. The one place where the source reads
  shared state again after a later suspension is the re-check of the Aborted set in the
  catch block of \<open>sendResponseResource\<close>; there the ids aborted in the meantime are an
  input.

  The events are the listeners that \<open>watch(session)\<close> registers, each with the session it
  binds. \<open>RequestPaused\<close> also carries the request ids aborted while its handler is
  suspended at a send (see \<open>sendResponseResource_catch\<close>).
\<close>

datatype event =
    RequestWillBeSent requestWillBeSent_event
  | ResponseReceived session responseReceived_event
  | EventSourceMessageReceived string
  | LoadingFinished string
  | LoadingFailed loadingFailed_event
  | RequestPaused session requestPaused_event "string set"
  | AuthRequired session authRequired_event

datatype latch = RequestWillBeSentLatch string | ResponseReceivedLatch string

text \<open>The promise a handler awaits first.\<close>

fun awaits :: "event \<Rightarrow> latch option" where
  "awaits (RequestWillBeSent ev) = None"
| "awaits (ResponseReceived s ev) = Some (RequestWillBeSentLatch (rr_requestId ev))"
| "awaits (EventSourceMessageReceived requestId) = Some (RequestWillBeSentLatch requestId)"
| "awaits (LoadingFinished requestId) = Some (ResponseReceivedLatch requestId)"
| "awaits (LoadingFailed ev) = Some (RequestWillBeSentLatch (lf_requestId ev))"
| "awaits (RequestPaused s ev late) = Some (RequestWillBeSentLatch (rp_networkId ev))"
| "awaits (AuthRequired s ev) = None"

fun resolved :: "network \<Rightarrow> latch \<Rightarrow> bool" where
  "resolved net (RequestWillBeSentLatch requestId) = (requestId \<in> sent_latch net)"
| "resolved net (ResponseReceivedLatch requestId) = (requestId \<in> response_latch net)"

text \<open>\<open>watch\<close> registers the two \<open>Fetch\<close> listeners only with \<open>intercept\<close> on a document session.\<close>

fun registered :: "options \<Rightarrow> event \<Rightarrow> bool" where
  "registered opts (RequestPaused s ev late) = (opt_intercept opts \<noteq> None \<and> isDocument s)"
| "registered opts (AuthRequired s ev) = (opt_intercept opts \<noteq> None \<and> isDocument s)"
| "registered opts _ = True"

text \<open>The handler of an event from its first await on.\<close>

fun handler_body :: "env \<Rightarrow> options \<Rightarrow> event \<Rightarrow> network \<Rightarrow> network \<times> effect list" where
  "handler_body e opts (RequestWillBeSent ev) net = handleRequestWillBeSent e opts ev net"
| "handler_body e opts (ResponseReceived s ev) net = (handleResponseReceived s ev net, [])"
| "handler_body e opts (EventSourceMessageReceived requestId) net =
     (handleEventSourceMessageReceived requestId net, [])"
| "handler_body e opts (LoadingFinished requestId) net = handleLoadingFinished e opts requestId net"
| "handler_body e opts (LoadingFailed ev) net = (handleLoadingFailed ev net, [])"
| "handler_body e opts (RequestPaused s ev late) net =
     handleRequestPaused e opts late s ev net"
| "handler_body e opts (AuthRequired s ev) net = handleAuthRequired opts s ev net"

text \<open>
  The page as the event loop sees it: the Network object, the handlers suspended at a
  latch in the order they arrived, and everything done to the outside so far.
\<close>

record page =
  page_net :: network
  waiting :: "event list"
  trace :: "effect list"

definition run_body :: "env \<Rightarrow> options \<Rightarrow> event \<Rightarrow> page \<Rightarrow> page" where
  "run_body e opts ev pg =
     (case handler_body e opts ev (page_net pg) of
        (n, effs) \<Rightarrow> pg\<lparr>page_net := n, trace := trace pg @ effs\<rparr>)"

definition is_ready :: "network \<Rightarrow> event \<Rightarrow> bool" where
  "is_ready n ev = (case awaits ev of None \<Rightarrow> True | Some l \<Rightarrow> resolved n l)"

text \<open>
  Resuming the suspended handlers whose latch is resolved, in arrival order. Handlers
  at the \<open>requestWillBeSent\<close> latch may resolve a \<open>responseReceived\<close> latch, whose handlers
  are queued behind them; those resolve nothing, so two rounds empty the queue.
\<close>

definition release :: "env \<Rightarrow> options \<Rightarrow> page \<Rightarrow> page" where
  "release e opts pg =
     fold (run_body e opts) (filter (is_ready (page_net pg)) (waiting pg))
       (pg\<lparr>waiting := filter (\<lambda>w. \<not> is_ready (page_net pg) w) (waiting pg)\<rparr>)"

definition deliver :: "env \<Rightarrow> options \<Rightarrow> event \<Rightarrow> page \<Rightarrow> page" where
  "deliver e opts ev pg =
     (if \<not> registered opts ev then pg
      else if is_ready (page_net pg) ev
      then release e opts (release e opts (run_body e opts ev pg))
      else pg\<lparr>waiting := waiting pg @ [ev]\<rparr>)"

definition run_events :: "env \<Rightarrow> options \<Rightarrow> event list \<Rightarrow> page \<Rightarrow> page" where
  "run_events e opts evs pg = fold (deliver e opts) evs pg"

section \<open>Idle waiter\<close>

text \<open>\<open>Array.from(this.#requests.values()).filter(filter)\<close>.\<close>

definition in_flight :: "network \<Rightarrow> (request \<Rightarrow> bool) \<Rightarrow> request list" where
  "in_flight n f = filter f (map snd (requests n))"

text \<open>\<open>_throwTimeoutError\<close>: the message of the error it throws.\<close>

definition throwTimeoutError :: "env \<Rightarrow> network \<Rightarrow> string \<Rightarrow> (request \<Rightarrow> bool) \<Rightarrow> string" where
  "throwTimeoutError e n msg f =
     (if shouldLog_debug e
      then msg @ [CHR 0x0A, CHR 0x0A] @ ''  '' @
           join (CHR 0x0A # ''  - '') (''Active requests:'' # map req_url (in_flight n f)) @
           [CHR 0x0A]
      else msg)"

text \<open>The callback that \<open>idle\<close> passes to \<open>waitFor\<close>, on the page's closed-reason and the
  registry as they are when it is called.\<close>

definition idle_check :: "(request \<Rightarrow> bool) \<Rightarrow> string option \<times> network \<Rightarrow> string + bool" where
  "idle_check f obs =
     (case obs of (closedReason, n) \<Rightarrow>
        if truthy closedReason
        then Inl (''Network error: '' @ (case closedReason of Some r \<Rightarrow> r | None \<Rightarrow> []))
        else Inr (in_flight n f = []))"

text \<open>
  Modelled from the spec: \<open>waitFor\<close> of \<open>./utils.js\<close> is not among the sources. It polls
  the callback; the list holds what the callback finds at each poll before the hard
  ceiling. An error of the callback is passed on at once; \<open>quiet\<close> further polls in a row
  must succeed (the quiet window); when the polls run out the ceiling is reached and it
  rejects with a message that starts with \<open>Timeout\<close>, which is what the catch handler of
  \<open>idle\<close> tests.
\<close>

fun waitFor :: "('s \<Rightarrow> string + bool) \<Rightarrow> nat \<Rightarrow> nat \<Rightarrow> 's list \<Rightarrow> string + unit" where
  "waitFor check quiet k [] = Inl ''Timeout exceeded.''"
| "waitFor check quiet k (s # ss) =
     (case check s of
        Inl err \<Rightarrow> Inl err
      | Inr True \<Rightarrow> if quiet \<le> k then Inr () else waitFor check quiet (Suc k) ss
      | Inr False \<Rightarrow> waitFor check quiet 0 ss)"

text \<open>\<open>idle\<close>; \<open>final\<close> is the Network when the catch handler runs.\<close>

definition idle ::
  "env \<Rightarrow> (request \<Rightarrow> bool) \<Rightarrow> nat \<Rightarrow> (string option \<times> network) list \<Rightarrow> network \<Rightarrow> string + unit" where
  "idle e f quiet polls final =
     (case waitFor (idle_check f) quiet 0 polls of
        Inr u \<Rightarrow> Inr u
      | Inl msg \<Rightarrow>
          if startsWith msg ''Timeout''
          then Inl (throwTimeoutError e final ''Timed out waiting for network requests to idle.'' f)
          else Inl msg)"

section \<open>Vocabulary of the properties\<close>

text \<open>The guard of \<open>send\<close> throws: the params carry a truthy \<open>requestId\<close> that is in the Aborted set.\<close>

definition guard_throws :: "network \<Rightarrow> params \<Rightarrow> bool" where
  "guard_throws net p =
     (case p_requestId p of Some rid \<Rightarrow> rid \<noteq> [] \<and> rid \<in> aborted net | None \<Rightarrow> False)"

text \<open>A \<open>Fetch.failRequest\<close> with \<open>errorReason: 'Aborted'\<close> on the wire.\<close>

definition fail_aborted :: "effect \<Rightarrow> bool" where
  "fail_aborted x =
     (case x of Send m p r \<Rightarrow> m = ''Fetch.failRequest'' \<and> p_payload p = FailRequest ''Aborted''
      | _ \<Rightarrow> False)"

text \<open>One of the three continuation commands on the wire, for the given intercept id.\<close>

definition continuation_for :: "string \<Rightarrow> effect \<Rightarrow> bool" where
  "continuation_for interceptId x =
     (case x of
        Send m p r \<Rightarrow>
          m \<in> {''Fetch.fulfillRequest'', ''Fetch.continueRequest'', ''Fetch.failRequest''}
          \<and> p_requestId p = Some interceptId
      | _ \<Rightarrow> False)"

text \<open>A command that the session answered without an error.\<close>

definition accepted :: "effect \<Rightarrow> bool" where
  "accepted x = (case x of Send m p (Inr _) \<Rightarrow> True | _ \<Rightarrow> False)"

definition is_save :: "effect \<Rightarrow> bool" where
  "is_save x = (case x of SaveResource _ \<Rightarrow> True | _ \<Rightarrow> False)"

section \<open>Example inputs\<close>

definition ex_env :: env where
  "ex_env =
     \<lparr>hostnameMatches = (\<lambda>patterns u. list_ex (\<lambda>p. includes_str u p) patterns),
      normalizeURL = (\<lambda>u. u),
      mime_lookup = (\<lambda>u. if includes_str u ''.woff2'' then Some ''font/woff2'' else None),
      url_origin_pathname = (\<lambda>u. Some u),
      createResource = (\<lambda>u b m st hs.
        \<lparr>res_url = u, res_content = b, res_mimetype = m, res_sha = ''sha'',
         res_status = Some st, res_headers = Some hs, res_root = False, res_provided = False\<rparr>),
      makeRequest = (\<lambda>u hs. Inr ''wire''),
      base64 = (\<lambda>s. s),
      buffer_from = (\<lambda>b enc. b),
      shouldLog_debug = True\<rparr>"

definition ex_net :: network where
  "ex_net = \<lparr>requests = [], pending = Map.empty, authentications = {}, aborted = {},
             sent_latch = {}, response_latch = {}\<rparr>"

definition ex_session :: session where
  "ex_session = \<lparr>closing = False, isDocument = True,
                 reply = (\<lambda>m p. Inr \<lparr>result_body = ''abc'', result_base64Encoded = False\<rparr>)\<rparr>"

definition ex_session_invalid :: session where
  "ex_session_invalid = \<lparr>closing = False, isDocument = True,
                 reply = (\<lambda>m p. Inl ''Invalid InterceptionId'')\<rparr>"

definition ex_resource :: resource where
  "ex_resource = \<lparr>res_url = ''http://ads.ex/t.js'', res_content = ''old'', res_mimetype = Some ''text/javascript'',
                  res_sha = ''sha0'', res_status = Some 200, res_headers = None,
                  res_root = False, res_provided = False\<rparr>"

definition ex_intercept :: "resource option \<Rightarrow> bool \<Rightarrow> intercept" where
  "ex_intercept cached disable =
     \<lparr>disallowedHostnames = [''ads.''], allowedHostnames = [''ex''],
      disableCache = disable, enableJavaScript = False, getResource = (\<lambda>u. cached)\<rparr>"

definition ex_request :: "string \<Rightarrow> response option \<Rightarrow> request" where
  "ex_request u resp = Request u ''GET'' [] (Some ''Other'') ''r1'' ''i1'' [] resp"

definition ex_response :: "nat \<Rightarrow> string \<Rightarrow> response" where
  "ex_response st mt =
     \<lparr>resp_status = st, resp_mimeType = Some mt, resp_headers = [(''content-type'', mt)],
      buffer_session = ex_session, buffer_requestId = ''r1''\<rparr>"

definition ex_options :: "authorization option \<Rightarrow> intercept option \<Rightarrow> options" where
  "ex_options a ico =
     \<lparr>opt_authorization = a, captureMockedServiceWorker = False, opt_intercept = ico\<rparr>"

definition ex_willBeSent :: "string \<Rightarrow> requestWillBeSent_event" where
  "ex_willBeSent u =
     \<lparr>rwbs_requestId = ''r1'',
      rwbs_request = \<lparr>rq_url = u, rq_method = ''GET'', rq_headers = []\<rparr>,
      rwbs_type = Some ''Other'', rwbs_redirectResponse = False\<rparr>"

definition ex_paused :: "string \<Rightarrow> requestPaused_event" where
  "ex_paused u =
     \<lparr>rp_networkId = ''r1'', rp_requestId = ''i1'', rp_resourceType = ''Other'',
      rp_request = \<lparr>rq_url = u, rq_method = ''GET'', rq_headers = []\<rparr>\<rparr>"

text \<open>The page when the \<open>Network\<close> object is constructed: every field empty, nothing suspended.\<close>

definition initial_page :: page where
  "initial_page =
     \<lparr>page_net = \<lparr>requests = [], pending = Map.empty, authentications = {}, aborted = {},
                   sent_latch = {}, response_latch = {}\<rparr>,
      waiting = [], trace = []\<rparr>"

text \<open>Every record of the registry is stored under its own \<open>requestId\<close>.\<close>

definition keys_ok :: "network \<Rightarrow> bool" where
  "keys_ok n = list_all (\<lambda>kr. req_requestId (snd kr) = fst kr) (requests n)"

text \<open>A handler that awaits one of the two latches of the given request id.\<close>

definition waits_for :: "string \<Rightarrow> event \<Rightarrow> bool" where
  "waits_for requestId ev =
     (awaits ev = Some (RequestWillBeSentLatch requestId)
      \<or> awaits ev = Some (ResponseReceivedLatch requestId))"

text \<open>An event that is not a \<open>Network.requestWillBeSent\<close> for the given request id, unless
  its URL starts with \<open>data:\<close>.\<close>

definition only_data :: "string \<Rightarrow> event \<Rightarrow> bool" where
  "only_data requestId ev =
     (case ev of
        RequestWillBeSent x \<Rightarrow>
          rwbs_requestId x \<noteq> requestId \<or> startsWith (rq_url (rwbs_request x)) ''data:''
      | _ \<Rightarrow> True)"

text \<open>No suspended handler could run: the latch of each is unresolved.\<close>

definition settled :: "page \<Rightarrow> bool" where
  "settled pg = list_all (\<lambda>w. \<not> is_ready (page_net pg) w) (waiting pg)"

text \<open>The handlers that resolve no latch: all but those of \<open>requestWillBeSent\<close> and
  \<open>responseReceived\<close>.\<close>

definition keeps_latches :: "event \<Rightarrow> bool" where
  "keeps_latches ev =
     (case ev of RequestWillBeSent _ \<Rightarrow> False | ResponseReceived _ _ \<Rightarrow> False | _ \<Rightarrow> True)"

text \<open>
  The wait of \<open>idle\<close> is not over after the given polls: none of them found a closed
  reason and the quiet window was not completed, so \<open>waitFor\<close> on them alone runs into the
  hard ceiling.
\<close>

definition still_waiting :: "(request \<Rightarrow> bool) \<Rightarrow> nat \<Rightarrow> (string option \<times> network) list \<Rightarrow> bool" where
  "still_waiting f quiet polls = (waitFor (idle_check f) quiet 0 polls = Inl ''Timeout exceeded.'')"

definition ex_session_failing :: session where
  "ex_session_failing = \<lparr>closing = False, isDocument = True,
                 reply = (\<lambda>m p. Inl ''boom'')\<rparr>"

section \<open>Auxiliary facts\<close>

lemma MAX_RESOURCE_SIZE_value: "MAX_RESOURCE_SIZE = 26214400"
  by (simp add: MAX_RESOURCE_SIZE_def)

lemma send_cases:
  "send net s m p =
     (if guard_throws net p then (Inl ABORTED_MESSAGE, [])
      else (reply s m p, [Send m p (reply s m p)]))"
  by (simp add: send_def guard_throws_def isAborted_def session_send_def split: option.splits)

lemma forget_aborted: "aborted (forget request k net) = aborted net"
  by (simp add: forget_def forgetRequest_def)

lemma catch_cases:
  "sendResponseResource_catch net late request s msg = []
   \<or> sendResponseResource_catch net late request s msg =
       [Send ''Fetch.failRequest''
          \<lparr>p_requestId = Some (req_interceptId request), p_payload = FailRequest ''Failed''\<rparr>
          (reply s ''Fetch.failRequest''
             \<lparr>p_requestId = Some (req_interceptId request), p_payload = FailRequest ''Failed''\<rparr>)]"
  unfolding sendResponseResource_catch_def Let_def send_cases by simp

lemma catch_guarded:
  "req_interceptId request \<noteq> [] \<Longrightarrow> req_interceptId request \<in> aborted net \<Longrightarrow>
   sendResponseResource_catch net late request s msg = []"
  unfolding sendResponseResource_catch_def Let_def send_cases
  by (simp add: guard_throws_def)

lemma catch_abort_race:
  "msg = ABORTED_MESSAGE \<or> includes_str msg ''Invalid InterceptionId'' \<Longrightarrow>
   req_requestId request \<in> aborted net \<union> late \<Longrightarrow>
   sendResponseResource_catch net late request s msg = []"
  unfolding sendResponseResource_catch_def Let_def by (simp add: isAborted_def)

lemma response_command_requestId:
  "p_requestId (snd (response_command e ic request)) = Some (req_interceptId request)"
  by (simp add: response_command_def Let_def fulfill_params_def split: option.splits)

lemma response_command_method:
  "fst (response_command e ic request)
     \<in> {''Fetch.fulfillRequest'', ''Fetch.continueRequest'', ''Fetch.failRequest''}"
  by (simp add: response_command_def Let_def split: option.splits)

lemma response_command_fail_aborted:
  "(fst (response_command e ic request) = ''Fetch.failRequest'' \<and>
    p_payload (snd (response_command e ic request)) = FailRequest ''Aborted'')
   \<longleftrightarrow> (hostnameMatches e (disallowedHostnames ic) (originURL e request)
        \<and> \<not> is_root (getResource ic (originURL e request)))"
  by (simp add: response_command_def Let_def fulfill_params_def split: option.splits)

lemma sendResponseResource_effects:
  "sendResponseResource e ic net late request s =
     (let m = fst (response_command e ic request); p = snd (response_command e ic request)
      in if guard_throws net p
         then sendResponseResource_catch net late request s ABORTED_MESSAGE
         else (case reply s m p of
                 Inr _ \<Rightarrow> [Send m p (reply s m p)]
               | Inl msg \<Rightarrow> Send m p (reply s m p) # sendResponseResource_catch net late request s msg))"
  by (simp add: sendResponseResource_def send_cases Let_def split: prod.splits sum.splits)

lemma guard_throws_response_command:
  "guard_throws net (snd (response_command e ic request))
   \<longleftrightarrow> (req_interceptId request \<noteq> [] \<and> req_interceptId request \<in> aborted net)"
  by (simp add: guard_throws_def response_command_requestId)

lemma response_buffer_no_save:
  "x \<in> set (snd (response_buffer e net resp)) \<Longrightarrow> \<not> is_save x"
  by (auto simp: response_buffer_def send_cases is_save_def split: sum.splits if_splits)

lemma makeDirectRequest_effects:
  "\<exists>hs. snd (makeDirectRequest e opts request) = [DirectRequest (req_url request) hs]"
  by (simp add: makeDirectRequest_def Let_def)

lemma capture_no_save:
  "x \<in> set (snd (capture e opts ic net request url)) \<Longrightarrow> \<not> is_save x"
proof (cases "req_response request")
  case None
  assume "x \<in> set (snd (capture e opts ic net request url))"
  with None show ?thesis by (simp add: capture_def)
next
  case (Some resp)
  assume x: "x \<in> set (snd (capture e opts ic net request url))"
  obtain rb effs where rb: "response_buffer e net resp = (rb, effs)"
    by (cases "response_buffer e net resp")
  obtain md effs' where md: "makeDirectRequest e opts request = (md, effs')"
    by (cases "makeDirectRequest e opts request")
  have 1: "\<forall>y \<in> set effs. \<not> is_save y"
    using response_buffer_no_save [of _ e net resp] rb by simp
  have 2: "\<forall>y \<in> set effs'. \<not> is_save y"
    using makeDirectRequest_effects [of e opts request] md by (auto simp: is_save_def)
  have "set (snd (capture e opts ic net request url)) \<subseteq> set effs \<union> set effs'"
    using Some rb md
    by (auto simp: capture_def Let_def split: sum.splits option.splits if_splits)
  with x 1 2 show ?thesis by blast
qed

lemma filter_save_capture: "filter is_save (snd (capture e opts ic net request url)) = []"
  by (simp add: filter_empty_conv capture_no_save)

subsection \<open>Latches and the queue of suspended handlers\<close>

lemma forget_latches:
  "sent_latch (forget request k n) = sent_latch n"
  "response_latch (forget request k n) = response_latch n"
  by (simp_all add: forget_def forgetRequest_def)

lemma handleRequest_latches:
  "sent_latch (fst (handleRequest e ico late so ev rt iid sw att n)) = sent_latch n
   \<and> response_latch (fst (handleRequest e ico late so ev rt iid sw att n)) = response_latch n"
  by (cases "map_of (requests n) (rwbs_requestId ev)")
     (simp_all add: handleRequest_def Let_def forget_latches split: prod.splits option.splits)

lemma handleRequest_latchesD:
  "handleRequest e ico late so ev rt iid sw att n = (n', effs) \<Longrightarrow>
   sent_latch n' = sent_latch n \<and> response_latch n' = response_latch n"
  using handleRequest_latches [of e ico late so ev rt iid sw att n] by (metis fst_conv)

lemma handleRequestWillBeSent_data:
  "startsWith (rq_url (rwbs_request x)) ''data:'' \<Longrightarrow> handleRequestWillBeSent e opts x n = (n, [])"
  by (simp add: handleRequestWillBeSent_def)

lemma handleRequestWillBeSent_latches:
  "sent_latch (fst (handleRequestWillBeSent e opts x n)) \<subseteq> insert (rwbs_requestId x) (sent_latch n)
   \<and> response_latch (fst (handleRequestWillBeSent e opts x n)) = response_latch n"
proof (cases "opt_intercept opts")
  case None
  then show ?thesis by (auto simp: handleRequestWillBeSent_def Let_def)
next
  case (Some ic)
  obtain n' effs where h: "handleRequest e (Some ic) {} None x (rwbs_type x) (rwbs_requestId x) True None
               (n\<lparr>pending := (pending n)(rwbs_requestId x \<mapsto> x)\<rparr>) = (n', effs)"
    by (cases "handleRequest e (Some ic) {} None x (rwbs_type x) (rwbs_requestId x) True None
               (n\<lparr>pending := (pending n)(rwbs_requestId x \<mapsto> x)\<rparr>)")
  from handleRequest_latchesD [OF h]
  have "sent_latch n' = sent_latch n" and "response_latch n' = response_latch n" by simp_all
  with Some h show ?thesis by (auto simp: handleRequestWillBeSent_def Let_def)
qed

lemma run_body_waiting: "waiting (run_body e opts ev pg) = waiting pg"
  by (cases "handler_body e opts ev (page_net pg)") (simp add: run_body_def)

lemma run_body_net:
  "page_net (run_body e opts ev pg) = fst (handler_body e opts ev (page_net pg))"
  by (cases "handler_body e opts ev (page_net pg)") (simp add: run_body_def)

lemma run_body_trace:
  "trace (run_body e opts ev pg) = trace pg @ snd (handler_body e opts ev (page_net pg))"
  by (cases "handler_body e opts ev (page_net pg)") (simp add: run_body_def)

lemma handleRequestWillBeSent_sent_latch:
  "\<not> startsWith (rq_url (rwbs_request x)) ''data:'' \<Longrightarrow>
   sent_latch (fst (handleRequestWillBeSent e opts x n)) = insert (rwbs_requestId x) (sent_latch n)"
proof (cases "opt_intercept opts")
  case None
  assume "\<not> startsWith (rq_url (rwbs_request x)) ''data:''"
  with None show ?thesis by (simp add: handleRequestWillBeSent_def Let_def)
next
  case (Some ic)
  assume d: "\<not> startsWith (rq_url (rwbs_request x)) ''data:''"
  obtain n' effs where h: "handleRequest e (Some ic) {} None x (rwbs_type x) (rwbs_requestId x) True None
               (n\<lparr>pending := (pending n)(rwbs_requestId x \<mapsto> x)\<rparr>) = (n', effs)"
    by (cases "handleRequest e (Some ic) {} None x (rwbs_type x) (rwbs_requestId x) True None
               (n\<lparr>pending := (pending n)(rwbs_requestId x \<mapsto> x)\<rparr>)")
  from handleRequest_latchesD [OF h] have "sent_latch n' = sent_latch n" by simp
  with Some h d show ?thesis by (simp add: handleRequestWillBeSent_def Let_def)
qed

lemma handleResponseReceived_latches:
  "sent_latch (handleResponseReceived s x n) = sent_latch n
   \<and> response_latch n \<subseteq> response_latch (handleResponseReceived s x n)"
  by (auto simp: handleResponseReceived_def Let_def split: option.splits)

lemma handler_body_keeps_latches:
  assumes "keeps_latches ev"
  shows "sent_latch (fst (handler_body e opts ev n)) = sent_latch n
         \<and> response_latch (fst (handler_body e opts ev n)) = response_latch n"
proof (cases ev)
  case (RequestWillBeSent x)
  with assms show ?thesis by (simp add: keeps_latches_def)
next
  case (ResponseReceived s x)
  with assms show ?thesis by (simp add: keeps_latches_def)
next
  case (EventSourceMessageReceived x)
  then show ?thesis
    by (simp add: handleEventSourceMessageReceived_def forget_latches split: option.splits)
next
  case (LoadingFinished x)
  then show ?thesis
    by (simp add: handleLoadingFinished_def forget_latches split: option.splits)
next
  case (LoadingFailed x)
  then show ?thesis
    by (simp add: handleLoadingFailed_def forget_latches split: option.splits)
next
  case (RequestPaused s x late)
  then show ?thesis
    by (simp add: handleRequestPaused_def Let_def handleRequest_latches split: option.splits)
next
  case (AuthRequired s x)
  then show ?thesis
    by (simp add: handleAuthRequired_def Let_def)
qed

lemma handler_body_sent_latch:
  assumes "\<forall>x. ev \<noteq> RequestWillBeSent x"
  shows "sent_latch (fst (handler_body e opts ev n)) = sent_latch n
         \<and> response_latch n \<subseteq> response_latch (fst (handler_body e opts ev n))"
proof (cases ev)
  case (RequestWillBeSent x)
  with assms show ?thesis by simp
next
  case (ResponseReceived s x)
  then show ?thesis using handleResponseReceived_latches [of s x n] by simp
qed (use handler_body_keeps_latches [of ev e opts n] in \<open>simp_all add: keeps_latches_def\<close>)

lemma is_ready_latches:
  "sent_latch n' = sent_latch n \<Longrightarrow> response_latch n' = response_latch n \<Longrightarrow>
   is_ready n' w = is_ready n w"
proof (cases "awaits w")
  case None
  then show ?thesis by (simp add: is_ready_def)
next
  case (Some l)
  assume "sent_latch n' = sent_latch n" "response_latch n' = response_latch n"
  with Some show ?thesis by (cases l) (simp_all add: is_ready_def)
qed

lemma fold_run_body_keeps:
  "\<forall>h \<in> set hs. keeps_latches h \<Longrightarrow>
   sent_latch (page_net (fold (run_body e opts) hs pg)) = sent_latch (page_net pg)
   \<and> response_latch (page_net (fold (run_body e opts) hs pg)) = response_latch (page_net pg)
   \<and> waiting (fold (run_body e opts) hs pg) = waiting pg"
proof (induction hs arbitrary: pg)
  case Nil
  show ?case by simp
next
  case (Cons h hs)
  from Cons.prems have h: "keeps_latches h" and hs: "\<forall>h \<in> set hs. keeps_latches h" by simp_all
  from handler_body_keeps_latches [OF h, of e opts "page_net pg"] Cons.IH [OF hs, of "run_body e opts h pg"]
  show ?case by (simp add: run_body_net run_body_waiting)
qed

lemma fold_run_body_sent:
  "\<forall>h \<in> set hs. \<forall>x. h \<noteq> RequestWillBeSent x \<Longrightarrow>
   sent_latch (page_net (fold (run_body e opts) hs pg)) = sent_latch (page_net pg)
   \<and> response_latch (page_net pg) \<subseteq> response_latch (page_net (fold (run_body e opts) hs pg))
   \<and> waiting (fold (run_body e opts) hs pg) = waiting pg"
proof (induction hs arbitrary: pg)
  case Nil
  show ?case by simp
next
  case (Cons h hs)
  from Cons.prems have h: "\<forall>x. h \<noteq> RequestWillBeSent x"
    and hs: "\<forall>h \<in> set hs. \<forall>x. h \<noteq> RequestWillBeSent x" by simp_all
  from handler_body_sent_latch [OF h, of e opts "page_net pg"] Cons.IH [OF hs, of "run_body e opts h pg"]
  show ?case by (auto simp: run_body_net run_body_waiting)
qed

lemma release_settled: "settled pg \<Longrightarrow> release e opts pg = pg"
proof -
  assume "settled pg"
  then have a: "\<forall>w \<in> set (waiting pg). \<not> is_ready (page_net pg) w"
    by (simp add: settled_def list_all_iff)
  then have "filter (is_ready (page_net pg)) (waiting pg) = []"
    and "filter (\<lambda>w. \<not> is_ready (page_net pg) w) (waiting pg) = waiting pg"
    by (simp_all add: filter_empty_conv filter_id_conv)
  then show ?thesis by (simp add: release_def)
qed

lemma settled_latches:
  "waiting pg' = waiting pg \<Longrightarrow> sent_latch (page_net pg') = sent_latch (page_net pg) \<Longrightarrow>
   response_latch (page_net pg') = response_latch (page_net pg) \<Longrightarrow> settled pg' = settled pg"
  using is_ready_latches [of "page_net pg'" "page_net pg"] by (simp add: settled_def)

lemma deliver_suspends:
  "registered opts ev \<Longrightarrow> \<not> is_ready (page_net pg) ev \<Longrightarrow>
   deliver e opts ev pg = pg\<lparr>waiting := waiting pg @ [ev]\<rparr>"
  by (simp add: deliver_def)

lemma deliver_runs:
  assumes "settled pg" and "registered opts ev" and "is_ready (page_net pg) ev"
    and "keeps_latches ev"
  shows "deliver e opts ev pg = run_body e opts ev pg"
proof -
  from handler_body_keeps_latches [OF assms(4), of e opts "page_net pg"]
  have "settled (run_body e opts ev pg) = settled pg"
    by (intro settled_latches) (simp_all add: run_body_net run_body_waiting)
  with assms(1) have "settled (run_body e opts ev pg)" by simp
  then have "release e opts (run_body e opts ev pg) = run_body e opts ev pg"
    by (rule release_settled)
  with assms(2,3) show ?thesis by (simp add: deliver_def)
qed

lemma deliver_resumes:
  assumes "settled pg"
    and "\<not> startsWith (rq_url (rwbs_request x)) ''data:''"
    and "rwbs_requestId x \<notin> sent_latch (page_net pg)"
    and "\<forall>h \<in> set (waiting pg).
           awaits h = Some (RequestWillBeSentLatch (rwbs_requestId x)) \<longrightarrow> keeps_latches h"
  shows "deliver e opts (RequestWillBeSent x) pg =
           fold (run_body e opts)
             (filter (\<lambda>w. awaits w = Some (RequestWillBeSentLatch (rwbs_requestId x))) (waiting pg))
             ((run_body e opts (RequestWillBeSent x) pg)
                \<lparr>waiting := filter (\<lambda>w. awaits w \<noteq> Some (RequestWillBeSentLatch (rwbs_requestId x)))
                               (waiting pg)\<rparr>)"
proof -
  let ?r = "rwbs_requestId x"
  let ?p1 = "run_body e opts (RequestWillBeSent x) pg"
  let ?hs = "filter (\<lambda>w. awaits w = Some (RequestWillBeSentLatch ?r)) (waiting pg)"
  let ?rest = "filter (\<lambda>w. awaits w \<noteq> Some (RequestWillBeSentLatch ?r)) (waiting pg)"
  have s1: "sent_latch (page_net ?p1) = insert ?r (sent_latch (page_net pg))"
    using handleRequestWillBeSent_sent_latch [OF assms(2), of e opts "page_net pg"]
    by (simp add: run_body_net)
  have r1: "response_latch (page_net ?p1) = response_latch (page_net pg)"
    using handleRequestWillBeSent_latches [of e opts x "page_net pg"] by (simp add: run_body_net)
  have nr: "\<forall>w \<in> set (waiting pg). \<not> is_ready (page_net pg) w"
    using assms(1) by (simp add: settled_def list_all_iff)
  have ready: "is_ready (page_net ?p1) w \<longleftrightarrow> awaits w = Some (RequestWillBeSentLatch ?r)"
    if w: "w \<in> set (waiting pg)" for w
  proof (cases "awaits w")
    case None
    with nr w show ?thesis by (auto simp: is_ready_def)
  next
    case (Some l)
    with nr w s1 r1 show ?thesis by (cases l) (auto simp: is_ready_def)
  qed
  have f1: "filter (is_ready (page_net ?p1)) (waiting ?p1) = ?hs"
    using ready by (auto simp: run_body_waiting intro: filter_cong)
  have f2: "filter (\<lambda>w. \<not> is_ready (page_net ?p1) w) (waiting ?p1) = ?rest"
    using ready by (auto simp: run_body_waiting intro: filter_cong)
  let ?p2 = "fold (run_body e opts) ?hs (?p1\<lparr>waiting := ?rest\<rparr>)"
  have rel1: "release e opts ?p1 = ?p2" by (simp add: release_def f1 f2)
  have k: "\<forall>h \<in> set ?hs. keeps_latches h" using assms(4) by simp
  from fold_run_body_keeps [OF k, of e opts "?p1\<lparr>waiting := ?rest\<rparr>"]
  have l2: "sent_latch (page_net ?p2) = sent_latch (page_net ?p1)"
           "response_latch (page_net ?p2) = response_latch (page_net ?p1)"
           "waiting ?p2 = ?rest"
    by simp_all
  have "\<forall>w \<in> set ?rest. \<not> is_ready (page_net ?p1) w" using ready by simp
  then have "\<forall>w \<in> set (waiting ?p2). \<not> is_ready (page_net ?p2) w"
    using l2 is_ready_latches [of "page_net ?p2" "page_net ?p1"] by simp
  then have "settled ?p2" by (simp add: settled_def list_all_iff)
  then have "release e opts ?p2 = ?p2" by (rule release_settled)
  with rel1 show ?thesis by (simp add: deliver_def is_ready_def)
qed

lemma awaits_response_latch: "awaits w = Some (ResponseReceivedLatch r) \<Longrightarrow> w = LoadingFinished r"
  by (cases w) simp_all

lemma awaits_not_requestWillBeSent: "awaits w \<noteq> None \<Longrightarrow> w \<noteq> RequestWillBeSent x"
  by (cases w) simp_all

lemma release_shape:
  assumes "\<forall>w \<in> set (waiting pg). awaits w \<noteq> None"
  shows "waiting (release e opts pg) = filter (\<lambda>w. \<not> is_ready (page_net pg) w) (waiting pg)
         \<and> sent_latch (page_net (release e opts pg)) = sent_latch (page_net pg)
         \<and> response_latch (page_net pg) \<subseteq> response_latch (page_net (release e opts pg))"
proof -
  have "\<forall>h \<in> set (filter (is_ready (page_net pg)) (waiting pg)). \<forall>x. h \<noteq> RequestWillBeSent x"
    using assms awaits_not_requestWillBeSent by auto
  from fold_run_body_sent [OF this, of e opts
         "pg\<lparr>waiting := filter (\<lambda>w. \<not> is_ready (page_net pg) w) (waiting pg)\<rparr>"]
  show ?thesis by (simp add: release_def)
qed

lemma release_settles:
  assumes "\<forall>w \<in> set (waiting pg). is_ready (page_net pg) w \<longrightarrow> keeps_latches w"
  shows "settled (release e opts pg)"
proof -
  let ?rest = "filter (\<lambda>w. \<not> is_ready (page_net pg) w) (waiting pg)"
  have "\<forall>h \<in> set (filter (is_ready (page_net pg)) (waiting pg)). keeps_latches h"
    using assms by simp
  from fold_run_body_keeps [OF this, of e opts "pg\<lparr>waiting := ?rest\<rparr>"]
  have l: "sent_latch (page_net (release e opts pg)) = sent_latch (page_net pg)"
          "response_latch (page_net (release e opts pg)) = response_latch (page_net pg)"
          "waiting (release e opts pg) = ?rest"
    by (simp_all add: release_def)
  have "\<forall>w \<in> set ?rest. \<not> is_ready (page_net pg) w" by simp
  then have "\<forall>w \<in> set (waiting (release e opts pg)). \<not> is_ready (page_net (release e opts pg)) w"
    using l is_ready_latches [of "page_net (release e opts pg)" "page_net pg"] by simp
  then show ?thesis by (simp add: settled_def list_all_iff)
qed

lemma settled_deliver: "settled pg \<Longrightarrow> settled (deliver e opts ev pg)"
proof -
  assume s: "settled pg"
  then have nr: "\<forall>w \<in> set (waiting pg). \<not> is_ready (page_net pg) w"
    by (simp add: settled_def list_all_iff)
  have aw: "\<forall>w \<in> set (waiting pg). awaits w \<noteq> None"
  proof
    fix w assume "w \<in> set (waiting pg)"
    with nr have "\<not> is_ready (page_net pg) w" by blast
    then show "awaits w \<noteq> None" by (cases "awaits w") (simp_all add: is_ready_def)
  qed
  show ?thesis
  proof (cases "registered opts ev \<and> is_ready (page_net pg) ev")
    case False
    then show ?thesis using s nr by (auto simp: deliver_def settled_def list_all_iff)
  next
    case True
    let ?p1 = "run_body e opts ev pg"
    let ?p2 = "release e opts ?p1"
    have aw1: "\<forall>w \<in> set (waiting ?p1). awaits w \<noteq> None" using aw by (simp add: run_body_waiting)
    from release_shape [OF aw1, of e opts]
    have w2: "waiting ?p2 = filter (\<lambda>w. \<not> is_ready (page_net ?p1) w) (waiting pg)"
      and s2: "sent_latch (page_net ?p2) = sent_latch (page_net ?p1)"
      by (simp_all add: run_body_waiting)
    have "\<forall>w \<in> set (waiting ?p2). is_ready (page_net ?p2) w \<longrightarrow> keeps_latches w"
    proof (intro ballI impI)
      fix w assume w: "w \<in> set (waiting ?p2)" and r: "is_ready (page_net ?p2) w"
      from w w2 have n1: "\<not> is_ready (page_net ?p1) w" and "w \<in> set (waiting pg)" by simp_all
      with aw obtain l where l: "awaits w = Some l" by auto
      show "keeps_latches w"
      proof (cases l)
        case (RequestWillBeSentLatch r')
        with l n1 r s2 show ?thesis by (simp add: is_ready_def)
      next
        case (ResponseReceivedLatch r')
        with l have "w = LoadingFinished r'" by (simp add: awaits_response_latch)
        then show ?thesis by (simp add: keeps_latches_def)
      qed
    qed
    then have "settled (release e opts ?p2)" by (rule release_settles)
    with True show ?thesis by (simp add: deliver_def)
  qed
qed

lemma settled_run_events: "settled pg \<Longrightarrow> settled (run_events e opts evs pg)"
  unfolding run_events_def
  by (induction evs arbitrary: pg) (simp_all add: settled_deliver)

lemma settled_initial: "settled initial_page"
  by (simp add: settled_def initial_page_def)

section \<open>C1: continuation commands per paused request\<close>

lemma handleRequestPaused_unmatched:
  "pending net (rp_networkId ev) = None \<or>
   (\<exists>p. pending net (rp_networkId ev) = Some p \<and>
        (rq_url (rwbs_request p) \<noteq> rq_url (rp_request ev)
         \<or> rq_method (rwbs_request p) \<noteq> rq_method (rp_request ev))) \<Longrightarrow>
   snd (handleRequestPaused e opts late s ev net) = []"
  by (auto simp: handleRequestPaused_def Let_def)

lemma handleRequest_decides:
  "\<exists>request.
      map_of (requests (fst (handleRequest e (Some ic) late (Some s) p rt iid False att net)))
        (rwbs_requestId p) = Some request
      \<and> req_url request = rq_url (rwbs_request p)
      \<and> req_interceptId request = iid
      \<and> req_requestId request = rwbs_requestId p
      \<and> snd (handleRequest e (Some ic) late (Some s) p rt iid False att net)
          = sendResponseResource e ic
              (fst (handleRequest e (Some ic) late (Some s) p rt iid False att net)) late request s"
proof (cases "rwbs_redirectResponse p")
  case False
  then show ?thesis
    by (simp add: handleRequest_def Let_def update_conv')
next
  case True
  then show ?thesis
    by (cases "map_of (requests net) (rwbs_requestId p)")
       (simp_all add: handleRequest_def Let_def update_conv')
qed

lemma handleRequest_keeps_aborted:
  "aborted (fst (handleRequest e ico late so p rt iid sw att net)) = aborted net"
  by (cases "map_of (requests net) (rwbs_requestId p)")
     (simp_all add: handleRequest_def Let_def forget_aborted split: prod.splits option.splits)

lemma handleRequestPaused_matched:
  assumes "opt_intercept opts = Some ic"
    and "pending net (rp_networkId ev) = Some p"
    and "rq_url (rwbs_request p) = rq_url (rp_request ev)"
    and "rq_method (rwbs_request p) = rq_method (rp_request ev)"
  shows "\<exists>net2 request.
           map_of (requests (fst (handleRequestPaused e opts late s ev net))) (rwbs_requestId p)
             = Some request
           \<and> req_url request = rq_url (rp_request ev)
           \<and> req_interceptId request = rp_requestId ev
           \<and> req_requestId request = rwbs_requestId p
           \<and> aborted net2 = aborted net
           \<and> snd (handleRequestPaused e opts late s ev net)
               = sendResponseResource e ic net2 late request s"
proof -
  let ?net1 = "net\<lparr>pending := (pending net)(rp_networkId ev := None)\<rparr>"
  let ?h = "handleRequest e (Some ic) late (Some s) p (Some (rp_resourceType ev)) (rp_requestId ev)
              False (pending_response opts net (rp_networkId ev)) ?net1"
  have eq: "handleRequestPaused e opts late s ev net = ?h"
    using assms by (simp add: handleRequestPaused_def Let_def)
  from handleRequest_decides [of e ic late s p "Some (rp_resourceType ev)" "rp_requestId ev"
         "pending_response opts net (rp_networkId ev)" ?net1]
  obtain request where
    "map_of (requests (fst ?h)) (rwbs_requestId p) = Some request"
    "req_url request = rq_url (rwbs_request p)"
    "req_interceptId request = rp_requestId ev"
    "req_requestId request = rwbs_requestId p"
    "snd ?h = sendResponseResource e ic (fst ?h) late request s"
    by blast
  moreover have "aborted (fst ?h) = aborted net"
    by (simp add: handleRequest_keeps_aborted)
  ultimately show ?thesis
    using assms(3) unfolding eq by metis
qed

lemma aborted_message_not_close: "\<not> includes_str ABORTED_MESSAGE ''close''"
  by (simp add: ABORTED_MESSAGE_def)

lemma catch_exact:
  "sendResponseResource_catch net late request s msg =
     (if (closing s \<and> includes_str msg ''close'')
         \<or> ((msg = ABORTED_MESSAGE \<or> includes_str msg ''Invalid InterceptionId'')
             \<and> req_requestId request \<in> aborted net \<union> late)
         \<or> (req_interceptId request \<noteq> [] \<and> req_interceptId request \<in> aborted net \<union> late)
      then []
      else [Send ''Fetch.failRequest''
              \<lparr>p_requestId = Some (req_interceptId request), p_payload = FailRequest ''Failed''\<rparr>
              (reply s ''Fetch.failRequest''
                 \<lparr>p_requestId = Some (req_interceptId request), p_payload = FailRequest ''Failed''\<rparr>)])"
  unfolding sendResponseResource_catch_def Let_def send_cases
  by (simp add: guard_throws_def isAborted_def)

lemma sendResponseResource_exact:
  "sendResponseResource e ic net late request s =
     (case response_command e ic request of
        (m, q) \<Rightarrow>
          if req_interceptId request \<noteq> [] \<and> req_interceptId request \<in> aborted net then []
          else (case reply s m q of
                  Inr res \<Rightarrow> [Send m q (Inr res)]
                | Inl msg \<Rightarrow>
                    if (closing s \<and> includes_str msg ''close'')
                       \<or> ((msg = ''Request was aborted by browser''
                            \<or> includes_str msg ''Invalid InterceptionId'')
                           \<and> req_requestId request \<in> aborted net \<union> late)
                       \<or> (req_interceptId request \<noteq> [] \<and> req_interceptId request \<in> aborted net \<union> late)
                    then [Send m q (Inl msg)]
                    else [Send m q (Inl msg),
                          Send ''Fetch.failRequest''
                            \<lparr>p_requestId = Some (req_interceptId request),
                             p_payload = FailRequest ''Failed''\<rparr>
                            (reply s ''Fetch.failRequest''
                               \<lparr>p_requestId = Some (req_interceptId request),
                                p_payload = FailRequest ''Failed''\<rparr>)]))"
proof (cases "response_command e ic request")
  case (Pair m q)
  then have q: "p_requestId q = Some (req_interceptId request)"
    using response_command_requestId [of e ic request] by simp
  show ?thesis
  proof (cases "req_interceptId request \<noteq> [] \<and> req_interceptId request \<in> aborted net")
    case True
    then have "guard_throws net q" using q by (simp add: guard_throws_def)
    with True Pair show ?thesis
      by (simp add: sendResponseResource_effects Let_def catch_guarded)
  next
    case False
    then have "\<not> guard_throws net q" using q by (auto simp: guard_throws_def)
    with False Pair show ?thesis
      by (cases "reply s m q")
         (simp_all add: sendResponseResource_effects Let_def catch_exact ABORTED_MESSAGE_def)
  qed
qed

lemma catch_continuations:
  "x \<in> set (sendResponseResource_catch net late request s msg) \<Longrightarrow>
   continuation_for (req_interceptId request) x"
  using catch_cases [of net late request s msg] by (auto simp: continuation_for_def)

lemma sendResponseResource_continuations:
  "x \<in> set (sendResponseResource e ic net late request s) \<Longrightarrow>
   continuation_for (req_interceptId request) x"
proof -
  let ?m = "fst (response_command e ic request)" and ?p = "snd (response_command e ic request)"
  assume x: "x \<in> set (sendResponseResource e ic net late request s)"
  have first: "continuation_for (req_interceptId request) (Send ?m ?p r)" for r
    using response_command_method [of e ic request] response_command_requestId [of e ic request]
    by (simp add: continuation_for_def)
  show ?thesis
  proof (cases "guard_throws net ?p")
    case True
    with x show ?thesis
      by (simp add: sendResponseResource_effects Let_def catch_continuations)
  next
    case False
    with x first show ?thesis
      by (cases "reply s ?m ?p")
         (auto simp: sendResponseResource_effects Let_def catch_continuations)
  qed
qed

lemma sendResponseResource_accepted_once:
  "length (filter accepted (sendResponseResource e ic net late request s)) \<le> 1"
proof -
  have c: "length (filter accepted (sendResponseResource_catch net late request s msg)) \<le> 1" for msg
    using catch_cases [of net late request s msg] by auto
  show ?thesis
    using c by (auto simp: sendResponseResource_effects Let_def accepted_def split: sum.splits)
qed

lemma deliver_paused_resumes:
  assumes "settled pg"
    and "\<not> startsWith (rq_url (rwbs_request x)) ''data:''"
    and "rwbs_requestId x \<notin> sent_latch (page_net pg)"
    and "filter (\<lambda>w. awaits w = Some (RequestWillBeSentLatch (rwbs_requestId x))) (waiting pg)
           = [RequestPaused s ev late]"
  shows "deliver e opts (RequestWillBeSent x) pg =
           pg\<lparr>page_net := fst (handleRequestPaused e opts late s ev
                                 (fst (handleRequestWillBeSent e opts x (page_net pg)))),
               waiting := filter (\<lambda>w. awaits w \<noteq> Some (RequestWillBeSentLatch (rwbs_requestId x)))
                            (waiting pg),
               trace := trace pg @ snd (handleRequestWillBeSent e opts x (page_net pg))
                          @ snd (handleRequestPaused e opts late s ev
                                   (fst (handleRequestWillBeSent e opts x (page_net pg))))\<rparr>"
proof -
  have k: "\<forall>h \<in> set (waiting pg).
             awaits h = Some (RequestWillBeSentLatch (rwbs_requestId x)) \<longrightarrow> keeps_latches h"
  proof (intro ballI impI)
    fix h assume "h \<in> set (waiting pg)"
      and "awaits h = Some (RequestWillBeSentLatch (rwbs_requestId x))"
    then have "h \<in> set (filter (\<lambda>w. awaits w = Some (RequestWillBeSentLatch (rwbs_requestId x)))
                          (waiting pg))" by simp
    with assms(4) have "h = RequestPaused s ev late" by simp
    then show "keeps_latches h" by (simp add: keeps_latches_def)
  qed
  obtain n1 effs1 where h1: "handleRequestWillBeSent e opts x (page_net pg) = (n1, effs1)"
    by (cases "handleRequestWillBeSent e opts x (page_net pg)")
  obtain n2 effs2 where h2: "handleRequestPaused e opts late s ev n1 = (n2, effs2)"
    by (cases "handleRequestPaused e opts late s ev n1")
  show ?thesis
    unfolding deliver_resumes [OF assms(1,2,3) k] assms(4)
    by (simp add: run_body_def h1 h2)
qed

text \<open>
  C1 as stated fails. A second \<open>Fetch.requestPaused\<close> for a request finds no Pending entry
  and \<open>_handleRequestPaused\<close> returns without any command, so two paused events get one
  command between them. And when the session rejects a command with an error that is
  neither a closing nor an abort, \<open>Fetch.failRequest\<close> follows the rejected command: two
  commands are issued for one paused event and none is accepted, with nothing in the
  Aborted set.
\<close>

theorem requestPaused_counterexample:
  "trace (run_events ex_env (ex_options None (Some (ex_intercept None False)))
            [RequestWillBeSent (ex_willBeSent ''http://cdn.ex/t.js''),
             RequestPaused ex_session (ex_paused ''http://cdn.ex/t.js'') {},
             RequestPaused ex_session (ex_paused ''http://cdn.ex/t.js'') {}]
            initial_page)
     = [Send ''Fetch.continueRequest'' \<lparr>p_requestId = Some ''i1'', p_payload = ContinueRequest\<rparr>
          (Inr \<lparr>result_body = ''abc'', result_base64Encoded = False\<rparr>)]
   \<and> trace (run_events ex_env (ex_options None (Some (ex_intercept None False)))
            [RequestWillBeSent (ex_willBeSent ''http://cdn.ex/t.js''),
             RequestPaused ex_session_failing (ex_paused ''http://cdn.ex/t.js'') {}]
            initial_page)
     = [Send ''Fetch.continueRequest'' \<lparr>p_requestId = Some ''i1'', p_payload = ContinueRequest\<rparr>
          (Inl ''boom''),
        Send ''Fetch.failRequest'' \<lparr>p_requestId = Some ''i1'', p_payload = FailRequest ''Failed''\<rparr>
          (Inl ''boom'')]
   \<and> aborted (page_net (run_events ex_env (ex_options None (Some (ex_intercept None False)))
            [RequestWillBeSent (ex_willBeSent ''http://cdn.ex/t.js''),
             RequestPaused ex_session_failing (ex_paused ''http://cdn.ex/t.js'') {}]
            initial_page)) = {}"
  by (simp add: run_events_def deliver_def release_def run_body_def is_ready_def
      handleRequestWillBeSent_def handleRequestPaused_def handleRequest_def pending_response_def
      sendResponseResource_def sendResponseResource_catch_def response_command_def
      send_def session_send_def isAborted_def originURL_def is_root_def
      startsWith_def Let_def ABORTED_MESSAGE_def
      initial_page_def ex_willBeSent_def ex_paused_def ex_options_def ex_intercept_def
      ex_env_def ex_session_def ex_session_failing_def)

text \<open>
  C1, amended. For a \<open>Fetch.requestPaused\<close> event handled by \<open>_handleRequestPaused\<close>:

  \<^item> Without a Pending entry of the same URL and method no command is issued.
  \<^item> With one, the request is put into the registry and the command that the decision
    table gives for it is handed to the guarded send. If the intercept id is in the Aborted
    set, no command is issued at all. If the session accepts the command, it is the only
    one. If the session rejects it, nothing follows when the session is closing and the
    error mentions \<open>close\<close>, or when the error is the aborted sentinel or contains
    \<open>Invalid InterceptionId\<close> and the request id is in the Aborted set after the tick, or
    when the intercept id is by then in the Aborted set; in every other case exactly one
    \<open>Fetch.failRequest\<close> with reason \<open>Failed\<close> follows, whatever the session answers to it.
  \<^item> So every command issued is one of the three continuation commands for the event's
    intercept id, and at most one is accepted.
  \<^item> The handler runs at once when the request-sent latch of the request is resolved;
    otherwise it is suspended and issues nothing until \<open>Network.requestWillBeSent\<close> for the
    request arrives, after whose handler it runs.
\<close>

theorem requestPaused_continuations:
  "(pending net (rp_networkId ev) = None \<or>
    (\<exists>p. pending net (rp_networkId ev) = Some p \<and>
         (rq_url (rwbs_request p) \<noteq> rq_url (rp_request ev)
          \<or> rq_method (rwbs_request p) \<noteq> rq_method (rp_request ev)))
      \<longrightarrow> snd (handleRequestPaused e opts late s ev net) = [])
   \<and> (\<forall>p ic. opt_intercept opts = Some ic
          \<and> pending net (rp_networkId ev) = Some p
          \<and> rq_url (rwbs_request p) = rq_url (rp_request ev)
          \<and> rq_method (rwbs_request p) = rq_method (rp_request ev) \<longrightarrow>
        (\<exists>request.
           map_of (requests (fst (handleRequestPaused e opts late s ev net))) (rwbs_requestId p)
             = Some request
           \<and> req_url request = rq_url (rp_request ev)
           \<and> req_interceptId request = rp_requestId ev
           \<and> req_requestId request = rwbs_requestId p
           \<and> snd (handleRequestPaused e opts late s ev net) =
               (case response_command e ic request of
                  (m, q) \<Rightarrow>
                    if rp_requestId ev \<noteq> [] \<and> rp_requestId ev \<in> aborted net then []
                    else (case reply s m q of
                            Inr res \<Rightarrow> [Send m q (Inr res)]
                          | Inl msg \<Rightarrow>
                              if (closing s \<and> includes_str msg ''close'')
                                 \<or> ((msg = ''Request was aborted by browser''
                                      \<or> includes_str msg ''Invalid InterceptionId'')
                                     \<and> rwbs_requestId p \<in> aborted net \<union> late)
                                 \<or> (rp_requestId ev \<noteq> [] \<and> rp_requestId ev \<in> aborted net \<union> late)
                              then [Send m q (Inl msg)]
                              else [Send m q (Inl msg),
                                    Send ''Fetch.failRequest''
                                      \<lparr>p_requestId = Some (rp_requestId ev),
                                       p_payload = FailRequest ''Failed''\<rparr>
                                      (reply s ''Fetch.failRequest''
                                         \<lparr>p_requestId = Some (rp_requestId ev),
                                          p_payload = FailRequest ''Failed''\<rparr>)])))
        \<and> (\<forall>x \<in> set (snd (handleRequestPaused e opts late s ev net)).
              continuation_for (rp_requestId ev) x)
        \<and> length (filter accepted (snd (handleRequestPaused e opts late s ev net))) \<le> 1)
   \<and> (settled pg \<and> registered opts (RequestPaused s ev late)
        \<and> rp_networkId ev \<in> sent_latch (page_net pg) \<longrightarrow>
        deliver e opts (RequestPaused s ev late) pg =
          pg\<lparr>page_net := fst (handleRequestPaused e opts late s ev (page_net pg)),
              trace := trace pg @ snd (handleRequestPaused e opts late s ev (page_net pg))\<rparr>)
   \<and> (registered opts (RequestPaused s ev late)
        \<and> rp_networkId ev \<notin> sent_latch (page_net pg) \<longrightarrow>
        deliver e opts (RequestPaused s ev late) pg
          = pg\<lparr>waiting := waiting pg @ [RequestPaused s ev late]\<rparr>)
   \<and> (settled pg \<and> \<not> startsWith (rq_url (rwbs_request x)) ''data:''
        \<and> rwbs_requestId x \<notin> sent_latch (page_net pg)
        \<and> filter (\<lambda>w. awaits w = Some (RequestWillBeSentLatch (rwbs_requestId x))) (waiting pg)
            = [RequestPaused s ev late] \<longrightarrow>
        deliver e opts (RequestWillBeSent x) pg =
          pg\<lparr>page_net := fst (handleRequestPaused e opts late s ev
                                (fst (handleRequestWillBeSent e opts x (page_net pg)))),
              waiting := filter (\<lambda>w. awaits w \<noteq> Some (RequestWillBeSentLatch (rwbs_requestId x)))
                           (waiting pg),
              trace := trace pg @ snd (handleRequestWillBeSent e opts x (page_net pg))
                         @ snd (handleRequestPaused e opts late s ev
                                  (fst (handleRequestWillBeSent e opts x (page_net pg))))\<rparr>)"
proof (intro conjI allI impI)
  assume "pending net (rp_networkId ev) = None \<or>
    (\<exists>p. pending net (rp_networkId ev) = Some p \<and>
         (rq_url (rwbs_request p) \<noteq> rq_url (rp_request ev)
          \<or> rq_method (rwbs_request p) \<noteq> rq_method (rp_request ev)))"
  then show "snd (handleRequestPaused e opts late s ev net) = []"
    by (rule handleRequestPaused_unmatched)
next
  fix p ic
  assume a: "opt_intercept opts = Some ic
          \<and> pending net (rp_networkId ev) = Some p
          \<and> rq_url (rwbs_request p) = rq_url (rp_request ev)
          \<and> rq_method (rwbs_request p) = rq_method (rp_request ev)"
  then obtain net2 request where
    reg: "map_of (requests (fst (handleRequestPaused e opts late s ev net))) (rwbs_requestId p)
            = Some request"
    and u: "req_url request = rq_url (rp_request ev)"
    and iid: "req_interceptId request = rp_requestId ev"
    and rid: "req_requestId request = rwbs_requestId p"
    and ab: "aborted net2 = aborted net"
    and eq: "snd (handleRequestPaused e opts late s ev net)
               = sendResponseResource e ic net2 late request s"
    using handleRequestPaused_matched [of opts ic net ev p e late s] by blast
  have "snd (handleRequestPaused e opts late s ev net) =
               (case response_command e ic request of
                  (m, q) \<Rightarrow>
                    if rp_requestId ev \<noteq> [] \<and> rp_requestId ev \<in> aborted net then []
                    else (case reply s m q of
                            Inr res \<Rightarrow> [Send m q (Inr res)]
                          | Inl msg \<Rightarrow>
                              if (closing s \<and> includes_str msg ''close'')
                                 \<or> ((msg = ''Request was aborted by browser''
                                      \<or> includes_str msg ''Invalid InterceptionId'')
                                     \<and> rwbs_requestId p \<in> aborted net \<union> late)
                                 \<or> (rp_requestId ev \<noteq> [] \<and> rp_requestId ev \<in> aborted net \<union> late)
                              then [Send m q (Inl msg)]
                              else [Send m q (Inl msg),
                                    Send ''Fetch.failRequest''
                                      \<lparr>p_requestId = Some (rp_requestId ev),
                                       p_payload = FailRequest ''Failed''\<rparr>
                                      (reply s ''Fetch.failRequest''
                                         \<lparr>p_requestId = Some (rp_requestId ev),
                                          p_payload = FailRequest ''Failed''\<rparr>)]))"
    unfolding eq sendResponseResource_exact [of e ic net2 late request s] iid rid ab ..
  with reg u iid rid
  show "\<exists>request.
           map_of (requests (fst (handleRequestPaused e opts late s ev net))) (rwbs_requestId p)
             = Some request
           \<and> req_url request = rq_url (rp_request ev)
           \<and> req_interceptId request = rp_requestId ev
           \<and> req_requestId request = rwbs_requestId p
           \<and> snd (handleRequestPaused e opts late s ev net) =
               (case response_command e ic request of
                  (m, q) \<Rightarrow>
                    if rp_requestId ev \<noteq> [] \<and> rp_requestId ev \<in> aborted net then []
                    else (case reply s m q of
                            Inr res \<Rightarrow> [Send m q (Inr res)]
                          | Inl msg \<Rightarrow>
                              if (closing s \<and> includes_str msg ''close'')
                                 \<or> ((msg = ''Request was aborted by browser''
                                      \<or> includes_str msg ''Invalid InterceptionId'')
                                     \<and> rwbs_requestId p \<in> aborted net \<union> late)
                                 \<or> (rp_requestId ev \<noteq> [] \<and> rp_requestId ev \<in> aborted net \<union> late)
                              then [Send m q (Inl msg)]
                              else [Send m q (Inl msg),
                                    Send ''Fetch.failRequest''
                                      \<lparr>p_requestId = Some (rp_requestId ev),
                                       p_payload = FailRequest ''Failed''\<rparr>
                                      (reply s ''Fetch.failRequest''
                                         \<lparr>p_requestId = Some (rp_requestId ev),
                                          p_payload = FailRequest ''Failed''\<rparr>)]))"
    by blast
  show "\<forall>x \<in> set (snd (handleRequestPaused e opts late s ev net)).
          continuation_for (rp_requestId ev) x"
    using sendResponseResource_continuations [of _ e ic net2 late request s]
    by (simp add: eq iid)
  show "length (filter accepted (snd (handleRequestPaused e opts late s ev net))) \<le> 1"
    using sendResponseResource_accepted_once [of e ic net2 late request s] by (simp add: eq)
next
  assume "settled pg \<and> registered opts (RequestPaused s ev late)
        \<and> rp_networkId ev \<in> sent_latch (page_net pg)"
  then have "deliver e opts (RequestPaused s ev late) pg = run_body e opts (RequestPaused s ev late) pg"
    by (intro deliver_runs) (simp_all add: is_ready_def keeps_latches_def)
  then show "deliver e opts (RequestPaused s ev late) pg =
          pg\<lparr>page_net := fst (handleRequestPaused e opts late s ev (page_net pg)),
              trace := trace pg @ snd (handleRequestPaused e opts late s ev (page_net pg))\<rparr>"
    by (cases "handleRequestPaused e opts late s ev (page_net pg)") (simp add: run_body_def)
next
  assume "registered opts (RequestPaused s ev late)
        \<and> rp_networkId ev \<notin> sent_latch (page_net pg)"
  then show "deliver e opts (RequestPaused s ev late) pg
          = pg\<lparr>waiting := waiting pg @ [RequestPaused s ev late]\<rparr>"
    by (intro deliver_suspends) (simp_all add: is_ready_def)
next
  assume "settled pg \<and> \<not> startsWith (rq_url (rwbs_request x)) ''data:''
        \<and> rwbs_requestId x \<notin> sent_latch (page_net pg)
        \<and> filter (\<lambda>w. awaits w = Some (RequestWillBeSentLatch (rwbs_requestId x))) (waiting pg)
            = [RequestPaused s ev late]"
  then show "deliver e opts (RequestWillBeSent x) pg =
          pg\<lparr>page_net := fst (handleRequestPaused e opts late s ev
                                (fst (handleRequestWillBeSent e opts x (page_net pg)))),
              waiting := filter (\<lambda>w. awaits w \<noteq> Some (RequestWillBeSentLatch (rwbs_requestId x)))
                           (waiting pg),
              trace := trace pg @ snd (handleRequestWillBeSent e opts x (page_net pg))
                         @ snd (handleRequestPaused e opts late s ev
                                  (fst (handleRequestWillBeSent e opts x (page_net pg))))\<rparr>"
    by (intro deliver_paused_resumes) simp_all
qed

theorem requestPaused_continuations_witness:
  "snd (handleRequestPaused ex_env (ex_options None (Some (ex_intercept None False))) {}
          ex_session_failing (ex_paused ''http://cdn.ex/t.js'')
          (ex_net\<lparr>pending := [''r1'' \<mapsto> ex_willBeSent ''http://cdn.ex/t.js'']\<rparr>))
     = [Send ''Fetch.continueRequest'' \<lparr>p_requestId = Some ''i1'', p_payload = ContinueRequest\<rparr>
          (Inl ''boom''),
        Send ''Fetch.failRequest'' \<lparr>p_requestId = Some ''i1'', p_payload = FailRequest ''Failed''\<rparr>
          (Inl ''boom'')]
   \<and> snd (handleRequestPaused ex_env (ex_options None (Some (ex_intercept None False))) {''r1''}
          ex_session_invalid (ex_paused ''http://cdn.ex/t.js'')
          (ex_net\<lparr>pending := [''r1'' \<mapsto> ex_willBeSent ''http://cdn.ex/t.js'']\<rparr>))
     = [Send ''Fetch.continueRequest'' \<lparr>p_requestId = Some ''i1'', p_payload = ContinueRequest\<rparr>
          (Inl ''Invalid InterceptionId'')]
   \<and> snd (handleRequestPaused ex_env (ex_options None (Some (ex_intercept None False))) {}
          ex_session (ex_paused ''http://cdn.ex/t.js'')
          (ex_net\<lparr>pending := [''r1'' \<mapsto> ex_willBeSent ''http://cdn.ex/other.js'']\<rparr>)) = []
   \<and> deliver ex_env (ex_options None (Some (ex_intercept None False)))
        (RequestPaused ex_session (ex_paused ''http://cdn.ex/t.js'') {}) initial_page
     = initial_page\<lparr>waiting := [RequestPaused ex_session (ex_paused ''http://cdn.ex/t.js'') {}]\<rparr>
   \<and> trace (deliver ex_env (ex_options None (Some (ex_intercept None False)))
               (RequestWillBeSent (ex_willBeSent ''http://cdn.ex/t.js''))
               (initial_page\<lparr>waiting := [RequestPaused ex_session (ex_paused ''http://cdn.ex/t.js'') {}]\<rparr>))
     = [Send ''Fetch.continueRequest'' \<lparr>p_requestId = Some ''i1'', p_payload = ContinueRequest\<rparr>
          (Inr \<lparr>result_body = ''abc'', result_base64Encoded = False\<rparr>)]"
proof -
  let ?opts = "ex_options None (Some (ex_intercept None False))"
  let ?u = "''http://cdn.ex/t.js''"
  let ?np = "ex_net\<lparr>pending := [''r1'' \<mapsto> ex_willBeSent ?u]\<rparr>"
  let ?no = "ex_net\<lparr>pending := [''r1'' \<mapsto> ex_willBeSent ''http://cdn.ex/other.js'']\<rparr>"
  let ?pw = "initial_page\<lparr>waiting := [RequestPaused ex_session (ex_paused ?u) {}]\<rparr>"
  note T1 = requestPaused_continuations [of ?np "ex_paused ?u" ex_env ?opts "{}" ex_session_failing
              initial_page "ex_willBeSent ?u"]
  note T2 = requestPaused_continuations [of ?no "ex_paused ?u" ex_env ?opts "{}" ex_session
              initial_page "ex_willBeSent ?u"]
  note T3 = requestPaused_continuations [of ?np "ex_paused ?u" ex_env ?opts "{}" ex_session
              ?pw "ex_willBeSent ?u"]
  have hyp: "opt_intercept ?opts = Some (ex_intercept None False)
          \<and> pending ?np (rp_networkId (ex_paused ?u)) = Some (ex_willBeSent ?u)
          \<and> rq_url (rwbs_request (ex_willBeSent ?u)) = rq_url (rp_request (ex_paused ?u))
          \<and> rq_method (rwbs_request (ex_willBeSent ?u)) = rq_method (rp_request (ex_paused ?u))"
    by (simp add: ex_options_def ex_net_def ex_paused_def ex_willBeSent_def)
  from T1 hyp obtain request where
    reg: "map_of (requests (fst (handleRequestPaused ex_env ?opts {} ex_session_failing (ex_paused ?u) ?np)))
            (rwbs_requestId (ex_willBeSent ?u)) = Some request"
    and eff: "snd (handleRequestPaused ex_env ?opts {} ex_session_failing (ex_paused ?u) ?np) =
               (case response_command ex_env (ex_intercept None False) request of
                  (m, q) \<Rightarrow>
                    if rp_requestId (ex_paused ?u) \<noteq> [] \<and> rp_requestId (ex_paused ?u) \<in> aborted ?np then []
                    else (case reply ex_session_failing m q of
                            Inr res \<Rightarrow> [Send m q (Inr res)]
                          | Inl msg \<Rightarrow>
                              if (closing ex_session_failing \<and> includes_str msg ''close'')
                                 \<or> ((msg = ''Request was aborted by browser''
                                      \<or> includes_str msg ''Invalid InterceptionId'')
                                     \<and> rwbs_requestId (ex_willBeSent ?u) \<in> aborted ?np \<union> {})
                                 \<or> (rp_requestId (ex_paused ?u) \<noteq> []
                                     \<and> rp_requestId (ex_paused ?u) \<in> aborted ?np \<union> {})
                              then [Send m q (Inl msg)]
                              else [Send m q (Inl msg),
                                    Send ''Fetch.failRequest''
                                      \<lparr>p_requestId = Some (rp_requestId (ex_paused ?u)),
                                       p_payload = FailRequest ''Failed''\<rparr>
                                      (reply ex_session_failing ''Fetch.failRequest''
                                         \<lparr>p_requestId = Some (rp_requestId (ex_paused ?u)),
                                          p_payload = FailRequest ''Failed''\<rparr>)]))"
    by blast
  from reg have "request = Request ?u ''GET'' [] (Some ''Other'') ''r1'' ''i1'' [] None"
    by (simp add: handleRequestPaused_def handleRequest_def pending_response_def Let_def
        ex_options_def ex_net_def ex_paused_def ex_willBeSent_def)
  with eff have 1: "snd (handleRequestPaused ex_env ?opts {} ex_session_failing (ex_paused ?u) ?np)
     = [Send ''Fetch.continueRequest'' \<lparr>p_requestId = Some ''i1'', p_payload = ContinueRequest\<rparr>
          (Inl ''boom''),
        Send ''Fetch.failRequest'' \<lparr>p_requestId = Some ''i1'', p_payload = FailRequest ''Failed''\<rparr>
          (Inl ''boom'')]"
    by (simp add: response_command_def originURL_def is_root_def Let_def
        ex_env_def ex_intercept_def ex_net_def ex_paused_def ex_session_failing_def)
  note T4 = requestPaused_continuations [of ?np "ex_paused ?u" ex_env ?opts "{''r1''}"
              ex_session_invalid initial_page "ex_willBeSent ?u"]
  from T4 hyp obtain request' where
    reg': "map_of (requests (fst (handleRequestPaused ex_env ?opts {''r1''} ex_session_invalid
                                    (ex_paused ?u) ?np)))
            (rwbs_requestId (ex_willBeSent ?u)) = Some request'"
    and eff': "snd (handleRequestPaused ex_env ?opts {''r1''} ex_session_invalid (ex_paused ?u) ?np) =
               (case response_command ex_env (ex_intercept None False) request' of
                  (m, q) \<Rightarrow>
                    if rp_requestId (ex_paused ?u) \<noteq> [] \<and> rp_requestId (ex_paused ?u) \<in> aborted ?np then []
                    else (case reply ex_session_invalid m q of
                            Inr res \<Rightarrow> [Send m q (Inr res)]
                          | Inl msg \<Rightarrow>
                              if (closing ex_session_invalid \<and> includes_str msg ''close'')
                                 \<or> ((msg = ''Request was aborted by browser''
                                      \<or> includes_str msg ''Invalid InterceptionId'')
                                     \<and> rwbs_requestId (ex_willBeSent ?u) \<in> aborted ?np \<union> {''r1''})
                                 \<or> (rp_requestId (ex_paused ?u) \<noteq> []
                                     \<and> rp_requestId (ex_paused ?u) \<in> aborted ?np \<union> {''r1''})
                              then [Send m q (Inl msg)]
                              else [Send m q (Inl msg),
                                    Send ''Fetch.failRequest''
                                      \<lparr>p_requestId = Some (rp_requestId (ex_paused ?u)),
                                       p_payload = FailRequest ''Failed''\<rparr>
                                      (reply ex_session_invalid ''Fetch.failRequest''
                                         \<lparr>p_requestId = Some (rp_requestId (ex_paused ?u)),
                                          p_payload = FailRequest ''Failed''\<rparr>)]))"
    by blast
  from reg' have "request' = Request ?u ''GET'' [] (Some ''Other'') ''r1'' ''i1'' [] None"
    by (simp add: handleRequestPaused_def handleRequest_def pending_response_def Let_def
        ex_options_def ex_net_def ex_paused_def ex_willBeSent_def)
  with eff' have 5: "snd (handleRequestPaused ex_env ?opts {''r1''} ex_session_invalid (ex_paused ?u) ?np)
     = [Send ''Fetch.continueRequest'' \<lparr>p_requestId = Some ''i1'', p_payload = ContinueRequest\<rparr>
          (Inl ''Invalid InterceptionId'')]"
    by (simp add: response_command_def originURL_def is_root_def Let_def
        ex_env_def ex_intercept_def ex_net_def ex_paused_def ex_willBeSent_def
        ex_session_invalid_def)
  from T2 have 2: "snd (handleRequestPaused ex_env ?opts {} ex_session (ex_paused ?u) ?no) = []"
    by (simp add: ex_net_def ex_paused_def ex_willBeSent_def)
  from T2 have 3: "deliver ex_env ?opts (RequestPaused ex_session (ex_paused ?u) {}) initial_page
     = initial_page\<lparr>waiting := [RequestPaused ex_session (ex_paused ?u) {}]\<rparr>"
    by (simp add: initial_page_def ex_paused_def ex_options_def ex_session_def)
  have s: "settled ?pw \<and> \<not> startsWith (rq_url (rwbs_request (ex_willBeSent ?u))) ''data:''
        \<and> rwbs_requestId (ex_willBeSent ?u) \<notin> sent_latch (page_net ?pw)
        \<and> filter (\<lambda>w. awaits w = Some (RequestWillBeSentLatch (rwbs_requestId (ex_willBeSent ?u))))
             (waiting ?pw) = [RequestPaused ex_session (ex_paused ?u) {}]"
    by (simp add: settled_def is_ready_def startsWith_def initial_page_def ex_paused_def
        ex_willBeSent_def)
  from T3 s have "trace (deliver ex_env ?opts (RequestWillBeSent (ex_willBeSent ?u)) ?pw)
      = trace ?pw @ snd (handleRequestWillBeSent ex_env ?opts (ex_willBeSent ?u) (page_net ?pw))
          @ snd (handleRequestPaused ex_env ?opts {} ex_session (ex_paused ?u)
                   (fst (handleRequestWillBeSent ex_env ?opts (ex_willBeSent ?u) (page_net ?pw))))"
    by simp
  then have 4: "trace (deliver ex_env ?opts (RequestWillBeSent (ex_willBeSent ?u)) ?pw)
     = [Send ''Fetch.continueRequest'' \<lparr>p_requestId = Some ''i1'', p_payload = ContinueRequest\<rparr>
          (Inr \<lparr>result_body = ''abc'', result_base64Encoded = False\<rparr>)]"
    by (simp add: handleRequestWillBeSent_def handleRequestPaused_def handleRequest_def
        pending_response_def sendResponseResource_def response_command_def
        send_def session_send_def isAborted_def originURL_def is_root_def
        startsWith_def Let_def
        initial_page_def ex_willBeSent_def ex_paused_def ex_options_def ex_intercept_def
        ex_env_def ex_session_def)
  from 1 5 2 3 4 show ?thesis by blast
qed

section \<open>C2: when the decider fails a request with reason Aborted\<close>

lemma catch_not_fail_aborted:
  "x \<in> set (sendResponseResource_catch net late request s msg) \<Longrightarrow> \<not> fail_aborted x"
  using catch_cases [of net late request s msg] by (auto simp: fail_aborted_def)

text \<open>
  C2 as stated fails: with a cached resource that is not a root resource and a disallowed
  hostname the decider still sends \<open>Fetch.failRequest\<close> with reason \<open>Aborted\<close>, because the
  test is \<open>!resource?.root\<close>, not the absence of a cached resource.
\<close>

theorem failRequest_Aborted_counterexample:
  "\<not> ((\<exists>x \<in> set (sendResponseResource ex_env (ex_intercept (Some ex_resource) False) ex_net {}
                     (ex_request ''http://ads.ex/t.js'' None) ex_session). fail_aborted x)
       \<longleftrightarrow> (getResource (ex_intercept (Some ex_resource) False)
               (originURL ex_env (ex_request ''http://ads.ex/t.js'' None)) = None
            \<and> hostnameMatches ex_env (disallowedHostnames (ex_intercept (Some ex_resource) False))
                 (originURL ex_env (ex_request ''http://ads.ex/t.js'' None))
            \<and> \<not> is_root (getResource (ex_intercept (Some ex_resource) False)
                 (originURL ex_env (ex_request ''http://ads.ex/t.js'' None)))))"
  by (simp add: sendResponseResource_def response_command_def send_def session_send_def
      isAborted_def originURL_def is_root_def fail_aborted_def
      ex_env_def ex_intercept_def ex_net_def ex_request_def ex_session_def ex_resource_def)

text \<open>
  C2, amended: the decider puts \<open>Fetch.failRequest\<close> with \<open>errorReason: 'Aborted'\<close> on the
  wire exactly when the hostname of the origin URL matches the disallowed list and the
  cache holds no root resource for that URL (no resource, or one that is not root), and the
  guard of \<open>send\<close> lets the command pass (the intercept id is not in the Aborted set).
\<close>

theorem failRequest_Aborted_iff:
  "(\<exists>x \<in> set (sendResponseResource e ic net late request s). fail_aborted x)
   \<longleftrightarrow> (hostnameMatches e (disallowedHostnames ic) (originURL e request)
        \<and> \<not> is_root (getResource ic (originURL e request))
        \<and> \<not> (req_interceptId request \<noteq> [] \<and> req_interceptId request \<in> aborted net))"
proof -
  let ?m = "fst (response_command e ic request)" and ?p = "snd (response_command e ic request)"
  have f: "fail_aborted (Send ?m ?p r) \<longleftrightarrow>
             (hostnameMatches e (disallowedHostnames ic) (originURL e request)
              \<and> \<not> is_root (getResource ic (originURL e request)))" for r
    using response_command_fail_aborted [of e ic request] by (simp add: fail_aborted_def)
  show ?thesis
  proof (cases "guard_throws net ?p")
    case True
    then show ?thesis
      using guard_throws_response_command [of net e ic request] catch_not_fail_aborted
      by (auto simp: sendResponseResource_effects Let_def)
  next
    case False
    then show ?thesis
      using guard_throws_response_command [of net e ic request] f catch_not_fail_aborted
      by (cases "reply s ?m ?p") (auto simp: sendResponseResource_effects Let_def)
  qed
qed

theorem failRequest_Aborted_iff_witness:
  "(\<exists>x \<in> set (sendResponseResource ex_env (ex_intercept None False) ex_net {}
                 (ex_request ''http://ads.ex/t.js'' None) ex_session). fail_aborted x)
   \<and> \<not> (\<exists>x \<in> set (sendResponseResource ex_env (ex_intercept None False) ex_net {}
                 (ex_request ''http://cdn.ex/t.js'' None) ex_session). fail_aborted x)"
  using failRequest_Aborted_iff [of ex_env "ex_intercept None False" ex_net "{}"
          "ex_request ''http://ads.ex/t.js'' None" ex_session]
        failRequest_Aborted_iff [of ex_env "ex_intercept None False" ex_net "{}"
          "ex_request ''http://cdn.ex/t.js'' None" ex_session]
  by (simp add: originURL_def is_root_def ex_env_def ex_intercept_def ex_net_def ex_request_def)

section \<open>C3: the size, status and type filters of the capturer\<close>

lemma filtered_not_captured:
  assumes "req_response request = Some resp"
    and "(\<exists>b effs. response_buffer e net resp = (Inr b, effs)
             \<and> (length b = 0 \<or> 26214400 < length b))
         \<or> resp_status resp \<notin> {200, 201, 301, 302, 304, 307, 308}
         \<or> (\<not> enableJavaScript ic \<and> req_type request \<notin>
              Some ` {''Document'', ''Stylesheet'', ''Image'', ''Media'', ''Font'', ''Other''})"
  shows "fst (capture e opts ic net request url) \<noteq> Captured r"
proof (cases "response_buffer e net resp")
  case (Pair rb effs)
  show ?thesis
  proof (cases rb)
    case (Inl err)
    with Pair assms(1) show ?thesis by (simp add: capture_def)
  next
    case (Inr b)
    with Pair assms show ?thesis
      by (cases "req_type request")
         (auto simp: capture_def MAX_RESOURCE_SIZE_value ALLOWED_STATUSES_def
            ALLOWED_RESOURCES_def)
  qed
qed

text \<open>
  C3: when the response's body (as \<open>response.buffer()\<close> returns it) is empty or longer
  than 26 214 400 bytes, or its status is not one of 200, 201, 301, 302, 304, 307, 308, or
  JavaScript capture is off and the resource type is not one of the six allowed ones, the
  capture never builds a resource from that response, and the only resource that
  \<open>saveResponseResource\<close> can hand to \<open>intercept.saveResource\<close> is the one the cache already
  held for the URL.
\<close>

theorem filtered_response_not_saved:
  assumes "req_response request = Some resp"
    and "(\<exists>b effs. response_buffer e net resp = (Inr b, effs)
             \<and> (length b = 0 \<or> 26214400 < length b))
         \<or> resp_status resp \<notin> {200, 201, 301, 302, 304, 307, 308}
         \<or> (\<not> enableJavaScript ic \<and> req_type request \<notin>
              Some ` {''Document'', ''Stylesheet'', ''Image'', ''Media'', ''Font'', ''Other''})"
  shows "(\<forall>url r. fst (capture e opts ic net request url) \<noteq> Captured r)
         \<and> (\<forall>r. SaveResource r \<in> set (saveResponseResource e opts ic net request)
                \<longrightarrow> getResource ic (originURL e request) = Some r)"
proof (intro conjI allI impI)
  fix url r
  show "fst (capture e opts ic net request url) \<noteq> Captured r"
    using assms by (rule filtered_not_captured)
next
  fix r
  let ?url = "originURL e request"
  assume s: "SaveResource r \<in> set (saveResponseResource e opts ic net request)"
  obtain out effs where c: "capture e opts ic net request ?url = (out, effs)"
    by (cases "capture e opts ic net request ?url")
  have n: "SaveResource r \<notin> set effs"
    using capture_no_save [of "SaveResource r" e opts ic net request ?url] c
    by (auto simp: is_save_def)
  have nc: "out \<noteq> Captured r'" for r'
    using filtered_not_captured [OF assms, of opts ?url r'] c by simp
  show "getResource ic ?url = Some r"
    using s c n nc
    by (cases out)
       (auto simp: saveResponseResource_def Let_def save_if_present_def
          split: if_splits option.splits)
qed

theorem filtered_response_not_saved_witness:
  "(\<forall>url r. fst (capture ex_env (ex_options None None) (ex_intercept None False) ex_net
                   (ex_request ''http://cdn.ex/a.css'' (Some (ex_response 404 ''text/css''))) url)
              \<noteq> Captured r)
   \<and> SaveResource ex_resource \<notin> set (saveResponseResource ex_env (ex_options None None)
         (ex_intercept None False) ex_net
         (ex_request ''http://cdn.ex/a.css'' (Some (ex_response 404 ''text/css''))))"
  using filtered_response_not_saved [of "ex_request ''http://cdn.ex/a.css'' (Some (ex_response 404 ''text/css''))"
          "ex_response 404 ''text/css''" ex_env ex_net "ex_intercept None False" "ex_options None None"]
  by (auto simp: ex_request_def ex_response_def ex_intercept_def)

section \<open>C4: when the capturer leaves without capturing\<close>

text \<open>
  C4 as stated fails: with a cached resource that is neither root nor provided and with
  caching disabled (\<open>disableCache\<close> set) the claim demands the early exit, but the capturer
  fetches the body and saves a new resource.
\<close>

theorem early_exit_counterexample:
  "getResource (ex_intercept (Some ex_resource) True)
      (originURL ex_env (ex_request ''http://cdn.ex/a.css'' (Some (ex_response 200 ''text/css''))))
     = Some ex_resource
   \<and> \<not> (\<not> res_root ex_resource \<and> \<not> res_provided ex_resource
         \<and> \<not> disableCache (ex_intercept (Some ex_resource) True))
   \<and> saveResponseResource ex_env (ex_options None None) (ex_intercept (Some ex_resource) True) ex_net
        (ex_request ''http://cdn.ex/a.css'' (Some (ex_response 200 ''text/css'')))
     = [Send ''Network.getResponseBody'' \<lparr>p_requestId = Some ''r1'', p_payload = GetResponseBody\<rparr>
          (Inr \<lparr>result_body = ''abc'', result_base64Encoded = False\<rparr>),
        SaveResource
          \<lparr>res_url = ''http://cdn.ex/a.css'', res_content = ''abc'', res_mimetype = Some ''text/css'',
           res_sha = ''sha'', res_status = Some 200,
           res_headers = Some [(''content-type'', [''text/css''])],
           res_root = False, res_provided = False\<rparr>]"
  by (simp add: saveResponseResource_def capture_def capture_needed_def save_if_present_def
      response_buffer_def send_def session_send_def isAborted_def originURL_def
      effective_mime_def opt_includes_def
      MAX_RESOURCE_SIZE_def ALLOWED_STATUSES_def ALLOWED_RESOURCES_def
      ex_env_def ex_intercept_def ex_net_def ex_request_def ex_response_def ex_session_def
      ex_resource_def ex_options_def)

text \<open>
  C4, amended: when the cache holds a resource for the origin URL, the capturer leaves
  without capturing (it only hands the cached resource to \<open>saveResource\<close>), unless that
  resource is neither root nor provided and caching is disabled; then it runs the capture.
\<close>

theorem early_exit:
  "getResource ic (originURL e request) = Some r \<Longrightarrow>
   (if \<not> res_root r \<and> \<not> res_provided r \<and> disableCache ic
    then saveResponseResource e opts ic net request =
           (case capture e opts ic net request (originURL e request) of
              (Skipped _, effs) \<Rightarrow> effs
            | (Threw _, effs) \<Rightarrow> effs @ [SaveResource r]
            | (Captured r', effs) \<Rightarrow> effs @ [SaveResource r'])
    else saveResponseResource e opts ic net request = [SaveResource r])"
  by (auto simp: saveResponseResource_def capture_needed_def save_if_present_def Let_def
      split: prod.splits capture_outcome.splits)

theorem early_exit_witness:
  "saveResponseResource ex_env (ex_options None None) (ex_intercept (Some ex_resource) False) ex_net
        (ex_request ''http://cdn.ex/a.css'' (Some (ex_response 200 ''text/css'')))
     = [SaveResource ex_resource]"
  using early_exit [of "ex_intercept (Some ex_resource) False" ex_env
          "ex_request ''http://cdn.ex/a.css'' (Some (ex_response 200 ''text/css''))" ex_resource
          "ex_options None None" ex_net]
  by (simp add: ex_intercept_def ex_resource_def)

section \<open>C5: the errors of the idle waiter\<close>

lemma includes_str_iff: "includes_str s p \<longleftrightarrow> (\<exists>a b. s = a @ p @ b)"
proof (induction s)
  case Nil
  show ?case by auto
next
  case (Cons c cs)
  show ?case
  proof
    assume "includes_str (c # cs) p"
    then consider "prefix p (c # cs)" | "includes_str cs p" by auto
    then show "\<exists>a b. c # cs = a @ p @ b"
    proof cases
      case 1
      then obtain b where "c # cs = p @ b" by (auto simp: prefix_def)
      then have "c # cs = [] @ p @ b" by simp
      then show ?thesis by blast
    next
      case 2
      with Cons.IH obtain a b where "cs = a @ p @ b" by blast
      then have "c # cs = (c # a) @ p @ b" by simp
      then show ?thesis by blast
    qed
  next
    assume "\<exists>a b. c # cs = a @ p @ b"
    then obtain a b where ab: "c # cs = a @ p @ b" by blast
    show "includes_str (c # cs) p"
    proof (cases a)
      case Nil
      with ab have "prefix p (c # cs)" by (simp add: prefix_def)
      then show ?thesis by simp
    next
      case (Cons x a')
      with ab have "cs = a' @ p @ b" by simp
      with Cons.IH have "includes_str cs p" by blast
      then show ?thesis by simp
    qed
  qed
qed

lemma includes_str_append: "includes_str (a @ x @ b) x"
  by (auto simp: includes_str_iff)

lemma join_includes: "x \<in> set xs \<Longrightarrow> \<exists>a b. join sep xs = a @ x @ b"
proof (induction sep xs rule: join.induct)
  case (1 sep)
  then show ?case by simp
next
  case (2 sep y)
  then have "join sep [y] = [] @ x @ []" by simp
  then show ?case by blast
next
  case (3 sep y z zs)
  show ?case
  proof (cases "x = y")
    case True
    then have "join sep (y # z # zs) = [] @ x @ (sep @ join sep (z # zs))" by simp
    then show ?thesis by blast
  next
    case False
    with 3 obtain a b where "join sep (z # zs) = a @ x @ b" by auto
    then have "join sep (y # z # zs) = (y @ sep @ a) @ x @ b" by simp
    then show ?thesis by blast
  qed
qed

lemma throwTimeoutError_lists:
  assumes "shouldLog_debug e" and "x \<in> set (''Active requests:'' # map req_url (in_flight n f))"
  shows "includes_str (throwTimeoutError e n msg f) x"
proof -
  from join_includes [OF assms(2), of "CHR 0x0A # ''  - ''"]
  obtain a b where "join (CHR 0x0A # ''  - '') (''Active requests:'' # map req_url (in_flight n f))
                      = a @ x @ b" by blast
  then have "throwTimeoutError e n msg f
               = (msg @ [CHR 0x0A, CHR 0x0A] @ ''  '' @ a) @ x @ (b @ [CHR 0x0A])"
    using assms(1) by (simp add: throwTimeoutError_def)
  then show ?thesis by (metis includes_str_append)
qed

lemma throwTimeoutError_start: "startsWith (throwTimeoutError e n msg f) msg"
  by (simp add: throwTimeoutError_def startsWith_def)

lemma waitFor_busy:
  "\<forall>s \<in> set ss. check s = Inr False \<Longrightarrow> waitFor check quiet k ss = Inl ''Timeout exceeded.''"
  by (induction ss arbitrary: k) simp_all

lemma waitFor_continues:
  assumes "waitFor check quiet k pre = Inl ''Timeout exceeded.''"
    and "\<forall>s. check s \<noteq> Inl ''Timeout exceeded.''"
  shows "\<exists>k'. \<forall>rest. waitFor check quiet k (pre @ rest) = waitFor check quiet k' rest"
  using assms(1)
proof (induction pre arbitrary: k)
  case Nil
  show ?case by auto
next
  case (Cons s pre)
  show ?case
  proof (cases "check s")
    case (Inl err)
    with Cons.prems assms(2) show ?thesis by auto
  next
    case (Inr b)
    show ?thesis
    proof (cases b)
      case True
      with Inr Cons.prems have nq: "\<not> quiet \<le> k" and "waitFor check quiet (Suc k) pre = Inl ''Timeout exceeded.''"
        by (auto split: if_splits)
      from Cons.IH [OF this(2)] obtain k' where
        "\<forall>rest. waitFor check quiet (Suc k) (pre @ rest) = waitFor check quiet k' rest" by blast
      with Inr True nq show ?thesis by auto
    next
      case False
      with Inr Cons.prems have "waitFor check quiet 0 pre = Inl ''Timeout exceeded.''" by simp
      from Cons.IH [OF this] obtain k' where
        "\<forall>rest. waitFor check quiet 0 (pre @ rest) = waitFor check quiet k' rest" by blast
      with Inr False show ?thesis by auto
    qed
  qed
qed

lemma idle_check_busy:
  "\<not> truthy (fst obs) \<and> in_flight (snd obs) f \<noteq> [] \<Longrightarrow> idle_check f obs = Inr False"
  by (cases obs) (simp add: idle_check_def)

lemma idle_check_closed:
  "reason \<noteq> [] \<Longrightarrow> idle_check f (Some reason, n) = Inl (''Network error: '' @ reason)"
  by (simp add: idle_check_def)

lemma idle_check_not_timeout: "idle_check f obs \<noteq> Inl ''Timeout exceeded.''"
  by (cases obs) (simp add: idle_check_def)

text \<open>
  C5 as stated fails: unless the logger is at debug level, the error of the hard ceiling
  carries the bare message, without \<open>Active requests:\<close> and without any URL.
\<close>

theorem idle_errors_counterexample:
  "idle (ex_env\<lparr>shouldLog_debug := False\<rparr>) (\<lambda>r. True) 0
        [(None, ex_net\<lparr>requests := [(''r1'', ex_request ''http://cdn.ex/a.css'' None)]\<rparr>)]
        (ex_net\<lparr>requests := [(''r1'', ex_request ''http://cdn.ex/a.css'' None)]\<rparr>)
     = Inl ''Timed out waiting for network requests to idle.''
   \<and> \<not> includes_str ''Timed out waiting for network requests to idle.'' ''Active requests:''"
  by (simp add: idle_def idle_check_def in_flight_def throwTimeoutError_def startsWith_def
      ex_env_def ex_net_def)

text \<open>
  C5, amended. When \<open>idle()\<close> reaches the hard ceiling (the polls ran out with the wait
  still on, whatever they found on the way), it throws an error whose message starts with
  \<open>Timed out waiting for network requests to idle.\<close>; when the logger is at debug level the
  message also contains \<open>Active requests:\<close> and the URL of every in-flight request that
  matches the filter, otherwise it is the bare message. If the session reports a
  closed-reason while the wait is still on, \<open>idle()\<close> throws \<open>Network error:\<close> followed by
  that reason. The wait is still on, in particular, when every poll so far found no closed
  reason and some request in flight.
\<close>

theorem idle_errors:
  "(still_waiting f quiet polls \<longrightarrow>
      (\<exists>msg. idle e f quiet polls final = Inl msg
         \<and> startsWith msg ''Timed out waiting for network requests to idle.''
         \<and> (shouldLog_debug e \<longrightarrow>
              includes_str msg ''Active requests:''
              \<and> (\<forall>r \<in> set (in_flight final f). includes_str msg (req_url r)))
         \<and> (\<not> shouldLog_debug e \<longrightarrow>
              msg = ''Timed out waiting for network requests to idle.'')))
   \<and> (still_waiting f quiet pre \<and> reason \<noteq> [] \<longrightarrow>
        idle e f quiet (pre @ (Some reason, n) # post) final
          = Inl (''Network error: '' @ reason))
   \<and> ((\<forall>obs \<in> set polls. \<not> truthy (fst obs) \<and> in_flight (snd obs) f \<noteq> []) \<longrightarrow>
        still_waiting f quiet polls)"
proof (intro conjI impI)
  let ?base = "''Timed out waiting for network requests to idle.''"
  assume "still_waiting f quiet polls"
  then have i: "idle e f quiet polls final = Inl (throwTimeoutError e final ?base f)"
    by (simp add: still_waiting_def idle_def startsWith_def)
  have "startsWith (throwTimeoutError e final ?base f) ?base"
    by (rule throwTimeoutError_start)
  moreover have "shouldLog_debug e \<longrightarrow>
              includes_str (throwTimeoutError e final ?base f) ''Active requests:''
              \<and> (\<forall>r \<in> set (in_flight final f).
                    includes_str (throwTimeoutError e final ?base f) (req_url r))"
    by (auto intro!: throwTimeoutError_lists)
  moreover have "\<not> shouldLog_debug e \<longrightarrow> throwTimeoutError e final ?base f = ?base"
    by (simp add: throwTimeoutError_def)
  ultimately show "\<exists>msg. idle e f quiet polls final = Inl msg
         \<and> startsWith msg ?base
         \<and> (shouldLog_debug e \<longrightarrow>
              includes_str msg ''Active requests:''
              \<and> (\<forall>r \<in> set (in_flight final f). includes_str msg (req_url r)))
         \<and> (\<not> shouldLog_debug e \<longrightarrow> msg = ?base)"
    using i by blast
next
  assume a: "still_waiting f quiet pre \<and> reason \<noteq> []"
  then have "waitFor (idle_check f) quiet 0 pre = Inl ''Timeout exceeded.''"
    by (simp add: still_waiting_def)
  from waitFor_continues [OF this] idle_check_not_timeout
  obtain k' where "\<forall>rest. waitFor (idle_check f) quiet 0 (pre @ rest)
                          = waitFor (idle_check f) quiet k' rest"
    by blast
  then have "waitFor (idle_check f) quiet 0 (pre @ (Some reason, n) # post)
               = Inl (''Network error: '' @ reason)"
    using a by (simp add: idle_check_closed)
  then show "idle e f quiet (pre @ (Some reason, n) # post) final
               = Inl (''Network error: '' @ reason)"
    by (simp add: idle_def startsWith_def)
next
  assume "\<forall>obs \<in> set polls. \<not> truthy (fst obs) \<and> in_flight (snd obs) f \<noteq> []"
  then show "still_waiting f quiet polls"
    unfolding still_waiting_def by (intro waitFor_busy ballI idle_check_busy) blast
qed

theorem idle_errors_witness:
  "(\<exists>msg. idle ex_env (\<lambda>r. True) 1
             [(None, ex_net),
              (None, ex_net\<lparr>requests := [(''r1'', ex_request ''http://cdn.ex/a.css'' None)]\<rparr>)]
             (ex_net\<lparr>requests := [(''r1'', ex_request ''http://cdn.ex/a.css'' None)]\<rparr>) = Inl msg
         \<and> includes_str msg ''Active requests:''
         \<and> includes_str msg ''http://cdn.ex/a.css'')
   \<and> idle ex_env (\<lambda>r. True) 1
        ([(None, ex_net),
          (None, ex_net\<lparr>requests := [(''r1'', ex_request ''http://cdn.ex/a.css'' None)]\<rparr>)]
         @ (Some ''closed'', ex_net) # [])
        (ex_net\<lparr>requests := [(''r1'', ex_request ''http://cdn.ex/a.css'' None)]\<rparr>)
      = Inl ''Network error: closed''"
proof -
  let ?n = "ex_net\<lparr>requests := [(''r1'', ex_request ''http://cdn.ex/a.css'' None)]\<rparr>"
  have sw: "still_waiting (\<lambda>r. True) 1 [(None, ex_net), (None, ?n)]"
    by (simp add: still_waiting_def idle_check_def in_flight_def ex_net_def)
  have dbg: "shouldLog_debug ex_env" by (simp add: ex_env_def)
  have fl: "ex_request ''http://cdn.ex/a.css'' None \<in> set (in_flight ?n (\<lambda>r. True))"
    by (simp add: in_flight_def ex_net_def)
  from idle_errors [of "\<lambda>r. True" 1 "[(None, ex_net), (None, ?n)]" ex_env ?n
         "[(None, ex_net), (None, ?n)]" "''closed''" ex_net "[]"]
  have 1: "\<exists>msg. idle ex_env (\<lambda>r. True) 1 [(None, ex_net), (None, ?n)] ?n = Inl msg
         \<and> includes_str msg ''Active requests:''
         \<and> (\<forall>r \<in> set (in_flight ?n (\<lambda>r. True)). includes_str msg (req_url r))"
    and 2: "idle ex_env (\<lambda>r. True) 1 ([(None, ex_net), (None, ?n)] @ (Some ''closed'', ex_net) # []) ?n
              = Inl ''Network error: closed''"
    using sw dbg by auto
  from 1 fl have "\<exists>msg. idle ex_env (\<lambda>r. True) 1 [(None, ex_net), (None, ?n)] ?n = Inl msg
         \<and> includes_str msg ''Active requests:''
         \<and> includes_str msg ''http://cdn.ex/a.css''"
    by (auto simp: ex_request_def)
  with 2 show ?thesis by blast
qed

section \<open>C6: the Aborted set only grows\<close>

lemma forgetRequest_aborted: "aborted (forgetRequest requestId interceptId k n) = aborted n"
  by (simp add: forgetRequest_def)

lemma handleRequest_aborted:
  "aborted (fst (handleRequest e ico late so ev rt iid sw att n)) = aborted n"
  by (cases "map_of (requests n) (rwbs_requestId ev)")
     (simp_all add: handleRequest_def Let_def forget_aborted split: prod.splits option.splits)

lemma handleRequestPaused_aborted:
  "aborted (fst (handleRequestPaused e opts late s ev n)) = aborted n"
  by (simp add: handleRequestPaused_def Let_def handleRequest_aborted split: option.splits)

lemma handleRequest_abortedD:
  "handleRequest e ico late so ev rt iid sw att n = (n', effs) \<Longrightarrow> aborted n' = aborted n"
  using handleRequest_aborted [of e ico late so ev rt iid sw att n] by (metis fst_conv)

lemma handleRequestWillBeSent_aborted:
  "aborted (fst (handleRequestWillBeSent e opts ev n)) = aborted n"
proof (cases "opt_intercept opts")
  case None
  then show ?thesis by (simp add: handleRequestWillBeSent_def Let_def)
next
  case (Some ic)
  obtain n' effs where h: "handleRequest e (Some ic) {} None ev (rwbs_type ev) (rwbs_requestId ev) True None
               (n\<lparr>pending := (pending n)(rwbs_requestId ev \<mapsto> ev)\<rparr>) = (n', effs)"
    by (cases "handleRequest e (Some ic) {} None ev (rwbs_type ev) (rwbs_requestId ev) True None
               (n\<lparr>pending := (pending n)(rwbs_requestId ev \<mapsto> ev)\<rparr>)")
  from handleRequest_abortedD [OF h] have "aborted n' = aborted n" by simp
  with Some h show ?thesis by (simp add: handleRequestWillBeSent_def Let_def)
qed

lemma handleResponseReceived_aborted: "aborted (handleResponseReceived s ev n) = aborted n"
  by (simp add: handleResponseReceived_def Let_def split: option.splits)

lemma handleEventSourceMessageReceived_aborted:
  "aborted (handleEventSourceMessageReceived requestId n) = aborted n"
  by (simp add: handleEventSourceMessageReceived_def forget_aborted split: option.splits)

lemma handleLoadingFinished_aborted:
  "aborted (fst (handleLoadingFinished e opts requestId n)) = aborted n"
  by (simp add: handleLoadingFinished_def forget_aborted split: option.splits)

lemma handleAuthRequired_aborted: "aborted (fst (handleAuthRequired opts s ev n)) = aborted n"
  by (simp add: handleAuthRequired_def Let_def)

lemma handleLoadingFailed_aborted:
  "aborted (handleLoadingFailed ev n) =
     (case map_of (requests n) (lf_requestId ev) of
        Some request \<Rightarrow>
          if lf_errorText ev = ''net::ERR_ABORTED''
          then insert (req_requestId request) (aborted n) else aborted n
      | None \<Rightarrow> aborted n)"
  by (simp add: handleLoadingFailed_def forget_aborted split: option.splits)

lemma handler_body_aborted:
  "aborted (fst (handler_body e opts ev n)) = aborted n
   \<or> (\<exists>lf request. ev = LoadingFailed lf \<and> lf_errorText lf = ''net::ERR_ABORTED''
         \<and> map_of (requests n) (lf_requestId lf) = Some request
         \<and> aborted (fst (handler_body e opts ev n)) = insert (req_requestId request) (aborted n))"
proof (cases ev)
  case (LoadingFailed lf)
  then show ?thesis
    by (cases "map_of (requests n) (lf_requestId lf)") (simp_all add: handleLoadingFailed_aborted)
qed (simp_all add: handleRequestWillBeSent_aborted handleResponseReceived_aborted
      handleEventSourceMessageReceived_aborted handleLoadingFinished_aborted
      handleRequestPaused_aborted handleAuthRequired_aborted)

lemma handler_body_aborted_mono: "aborted n \<subseteq> aborted (fst (handler_body e opts ev n))"
  using handler_body_aborted [of e opts ev n] by auto

lemma run_body_aborted_mono: "aborted (page_net pg) \<subseteq> aborted (page_net (run_body e opts ev pg))"
  using handler_body_aborted_mono [of "page_net pg" e opts ev]
  by (cases "handler_body e opts ev (page_net pg)") (simp add: run_body_def)

lemma fold_run_body_aborted_mono:
  "aborted (page_net pg) \<subseteq> aborted (page_net (fold (run_body e opts) ws pg))"
proof (induction ws arbitrary: pg)
  case Nil
  show ?case by simp
next
  case (Cons w ws)
  have "aborted (page_net pg) \<subseteq> aborted (page_net (run_body e opts w pg))"
    by (rule run_body_aborted_mono)
  also have "\<dots> \<subseteq> aborted (page_net (fold (run_body e opts) ws (run_body e opts w pg)))"
    by (rule Cons.IH)
  finally show ?case by simp
qed

lemma release_aborted_mono: "aborted (page_net pg) \<subseteq> aborted (page_net (release e opts pg))"
  using fold_run_body_aborted_mono
          [of "pg\<lparr>waiting := filter (\<lambda>w. \<not> is_ready (page_net pg) w) (waiting pg)\<rparr>" e opts
              "filter (is_ready (page_net pg)) (waiting pg)"]
  by (simp add: release_def)

lemma deliver_aborted_mono: "aborted (page_net pg) \<subseteq> aborted (page_net (deliver e opts ev pg))"
proof -
  have "aborted (page_net pg) \<subseteq> aborted (page_net (run_body e opts ev pg))"
    by (rule run_body_aborted_mono)
  also have "\<dots> \<subseteq> aborted (page_net (release e opts (run_body e opts ev pg)))"
    by (rule release_aborted_mono)
  also have "\<dots> \<subseteq> aborted (page_net (release e opts (release e opts (run_body e opts ev pg))))"
    by (rule release_aborted_mono)
  finally show ?thesis by (simp add: deliver_def)
qed

lemma run_events_aborted_mono:
  "aborted (page_net pg) \<subseteq> aborted (page_net (run_events e opts evs pg))"
proof (induction evs arbitrary: pg)
  case Nil
  show ?case by (simp add: run_events_def)
next
  case (Cons ev evs)
  have "aborted (page_net pg) \<subseteq> aborted (page_net (deliver e opts ev pg))"
    by (rule deliver_aborted_mono)
  also have "\<dots> \<subseteq> aborted (page_net (run_events e opts evs (deliver e opts ev pg)))"
    by (rule Cons.IH)
  finally show ?case by (simp add: run_events_def)
qed

text \<open>The registry keeps every record under its own request id.\<close>

lemma set_alist_update: "set (AList.update k v al) \<subseteq> insert (k, v) (set al)"
  by (induction al) auto

lemma keys_ok_update:
  "keys_ok n \<Longrightarrow> req_requestId r = k \<Longrightarrow> keys_ok (n\<lparr>requests := AList.update k r (requests n)\<rparr>)"
  using set_alist_update [of k r "requests n"] by (auto simp: keys_ok_def list_all_iff)

lemma keys_ok_forget: "keys_ok n \<Longrightarrow> keys_ok (forget request k n)"
  by (auto simp: keys_ok_def list_all_iff forget_def forgetRequest_def AList.delete_eq)

lemma keys_ok_lookup: "keys_ok n \<Longrightarrow> map_of (requests n) k = Some r \<Longrightarrow> req_requestId r = k"
  by (auto simp: keys_ok_def list_all_iff dest!: map_of_SomeD)

lemma keys_ok_fields:
  "requests n' = requests n \<Longrightarrow> keys_ok n \<Longrightarrow> keys_ok n'"
  by (simp add: keys_ok_def)

lemma keys_ok_handleRequest:
  "keys_ok n \<Longrightarrow> keys_ok (fst (handleRequest e ico late so ev rt iid sw att n))"
proof -
  assume k: "keys_ok n"
  have u: "keys_ok m \<Longrightarrow> keys_ok (m\<lparr>requests := AList.update (rwbs_requestId ev)
             (Request u' m' h' rt (rwbs_requestId ev) iid chain att) (requests m)\<rparr>)"
    for m u' m' h' chain
    by (rule keys_ok_update) simp_all
  show ?thesis
    using k
    by (cases "map_of (requests n) (rwbs_requestId ev)")
       (auto simp: handleRequest_def Let_def split: option.splits intro!: u keys_ok_forget)
qed

lemma keys_ok_handler_body:
  "keys_ok n \<Longrightarrow> keys_ok (fst (handler_body e opts ev n))"
proof (cases ev)
  case (RequestWillBeSent x)
  assume k: "keys_ok n"
  let ?n = "n\<lparr>pending := (pending n)(rwbs_requestId x \<mapsto> x)\<rparr>"
  have k': "keys_ok ?n" using k by (simp add: keys_ok_def)
  obtain n' effs where h: "handleRequest e (opt_intercept opts) {} None x (rwbs_type x) (rwbs_requestId x) True None ?n = (n', effs)"
    by (cases "handleRequest e (opt_intercept opts) {} None x (rwbs_type x) (rwbs_requestId x) True None ?n")
  have "keys_ok n'"
    using keys_ok_handleRequest [OF k', of e "opt_intercept opts" "{}" None x "rwbs_type x" "rwbs_requestId x" True None] h
    by simp
  then have "keys_ok (n'\<lparr>sent_latch := insert (rwbs_requestId x) (sent_latch n')\<rparr>)"
    by (simp add: keys_ok_def)
  moreover have "keys_ok (n\<lparr>sent_latch := insert (rwbs_requestId x) (sent_latch n)\<rparr>)"
    and "keys_ok (?n\<lparr>sent_latch := insert (rwbs_requestId x) (sent_latch ?n)\<rparr>)"
    using k by (simp_all add: keys_ok_def)
  ultimately show ?thesis
    using RequestWillBeSent k h
    by (auto simp: handleRequestWillBeSent_def Let_def split: option.splits)
next
  case (ResponseReceived s x)
  assume k: "keys_ok n"
  show ?thesis
  proof (cases "map_of (requests n) (rr_requestId x)")
    case None
    with ResponseReceived k show ?thesis by (simp add: handleResponseReceived_def)
  next
    case (Some request)
    have "req_requestId (with_response request resp) = rr_requestId x" for resp
      using keys_ok_lookup [OF k Some] by (cases request) (simp add: with_response_def)
    from keys_ok_update [OF k this]
    show ?thesis
      using ResponseReceived Some
      by (simp add: handleResponseReceived_def Let_def keys_ok_def)
  qed
next
  case (EventSourceMessageReceived r)
  assume "keys_ok n"
  with EventSourceMessageReceived show ?thesis
    by (simp add: handleEventSourceMessageReceived_def keys_ok_forget split: option.splits)
next
  case (LoadingFinished r)
  assume "keys_ok n"
  with LoadingFinished show ?thesis
    by (simp add: handleLoadingFinished_def keys_ok_forget split: option.splits)
next
  case (LoadingFailed x)
  assume k: "keys_ok n"
  then have "keys_ok (n\<lparr>aborted := A\<rparr>)" for A by (simp add: keys_ok_def)
  with LoadingFailed k show ?thesis
    by (simp add: handleLoadingFailed_def keys_ok_forget split: option.splits)
next
  case (RequestPaused s x late)
  assume k: "keys_ok n"
  then have "keys_ok (n\<lparr>pending := P\<rparr>)" for P by (simp add: keys_ok_def)
  with RequestPaused show ?thesis
    by (simp add: handleRequestPaused_def Let_def keys_ok_handleRequest split: option.splits)
next
  case (AuthRequired s x)
  assume k: "keys_ok n"
  then have "keys_ok (n\<lparr>authentications := A\<rparr>)" for A by (simp add: keys_ok_def)
  with AuthRequired k show ?thesis
    by (simp add: handleAuthRequired_def Let_def)
qed

lemma keys_ok_run_body: "keys_ok (page_net pg) \<Longrightarrow> keys_ok (page_net (run_body e opts ev pg))"
  using keys_ok_handler_body [of "page_net pg" e opts ev]
  by (cases "handler_body e opts ev (page_net pg)") (simp add: run_body_def)

lemma keys_ok_fold:
  "keys_ok (page_net pg) \<Longrightarrow> keys_ok (page_net (fold (run_body e opts) ws pg))"
  by (induction ws arbitrary: pg) (simp_all add: keys_ok_run_body)

lemma keys_ok_release: "keys_ok (page_net pg) \<Longrightarrow> keys_ok (page_net (release e opts pg))"
  using keys_ok_fold [of "pg\<lparr>waiting := filter (\<lambda>w. \<not> is_ready (page_net pg) w) (waiting pg)\<rparr>" e opts
          "filter (is_ready (page_net pg)) (waiting pg)"]
  by (simp add: release_def)

lemma keys_ok_deliver: "keys_ok (page_net pg) \<Longrightarrow> keys_ok (page_net (deliver e opts ev pg))"
  by (simp add: deliver_def keys_ok_release keys_ok_run_body)

lemma keys_ok_run_events:
  "keys_ok (page_net pg) \<Longrightarrow> keys_ok (page_net (run_events e opts evs pg))"
  unfolding run_events_def
  by (induction evs arbitrary: pg) (simp_all add: keys_ok_deliver)

lemma keys_ok_initial: "keys_ok (page_net initial_page)"
  by (simp add: keys_ok_def initial_page_def)

lemma handleLoadingFailed_adds:
  assumes "keys_ok n"
  shows "aborted (handleLoadingFailed lf n) =
           (if lf_errorText lf = ''net::ERR_ABORTED'' \<and> map_of (requests n) (lf_requestId lf) \<noteq> None
            then insert (lf_requestId lf) (aborted n) else aborted n)"
proof (cases "map_of (requests n) (lf_requestId lf)")
  case None
  then show ?thesis by (simp add: handleLoadingFailed_aborted)
next
  case (Some request)
  from keys_ok_lookup [OF assms Some] Some show ?thesis
    by (simp add: handleLoadingFailed_aborted)
qed

lemma deliver_loadingFailed_runs:
  assumes "settled pg" and "lf_requestId lf \<in> sent_latch (page_net pg)"
  shows "page_net (deliver e opts (LoadingFailed lf) pg) = handleLoadingFailed lf (page_net pg)"
proof -
  have "deliver e opts (LoadingFailed lf) pg = run_body e opts (LoadingFailed lf) pg"
    using assms by (intro deliver_runs) (simp_all add: is_ready_def keeps_latches_def)
  then show ?thesis by (simp add: run_body_net)
qed

lemma deliver_loadingFailed_resumes:
  assumes "settled pg"
    and "\<not> startsWith (rq_url (rwbs_request x)) ''data:''"
    and "rwbs_requestId x \<notin> sent_latch (page_net pg)"
    and "filter (\<lambda>w. awaits w = Some (RequestWillBeSentLatch (rwbs_requestId x))) (waiting pg)
           = [LoadingFailed lf]"
  shows "page_net (deliver e opts (RequestWillBeSent x) pg)
           = handleLoadingFailed lf (fst (handleRequestWillBeSent e opts x (page_net pg)))"
proof -
  have k: "\<forall>h \<in> set (waiting pg).
             awaits h = Some (RequestWillBeSentLatch (rwbs_requestId x)) \<longrightarrow> keeps_latches h"
  proof (intro ballI impI)
    fix h assume "h \<in> set (waiting pg)"
      and "awaits h = Some (RequestWillBeSentLatch (rwbs_requestId x))"
    then have "h \<in> set (filter (\<lambda>w. awaits w = Some (RequestWillBeSentLatch (rwbs_requestId x)))
                          (waiting pg))" by simp
    with assms(4) have "h = LoadingFailed lf" by simp
    then show "keeps_latches h" by (simp add: keeps_latches_def)
  qed
  obtain n1 effs1 where h1: "handleRequestWillBeSent e opts x (page_net pg) = (n1, effs1)"
    by (cases "handleRequestWillBeSent e opts x (page_net pg)")
  show ?thesis
    unfolding deliver_resumes [OF assms(1,2,3) k] assms(4)
    by (simp add: run_body_def h1)
qed

text \<open>
  C6 as stated fails: a \<open>Network.loadingFailed\<close> with \<open>net::ERR_ABORTED\<close> adds nothing when
  the request is not in the registry. With interception on, the registry gets the request
  only when its pause is handled; an abort that arrives before leaves the Aborted set
  empty, although the handler has run.
\<close>

theorem aborted_only_grows_counterexample:
  "aborted (page_net (run_events ex_env (ex_options None (Some (ex_intercept None False)))
      [RequestWillBeSent (ex_willBeSent ''http://cdn.ex/a.css''),
       LoadingFailed \<lparr>lf_requestId = ''r1'', lf_errorText = ''net::ERR_ABORTED''\<rparr>]
      initial_page)) = {}
   \<and> waiting (run_events ex_env (ex_options None (Some (ex_intercept None False)))
      [RequestWillBeSent (ex_willBeSent ''http://cdn.ex/a.css''),
       LoadingFailed \<lparr>lf_requestId = ''r1'', lf_errorText = ''net::ERR_ABORTED''\<rparr>]
      initial_page) = []"
  by (simp add: run_events_def deliver_def release_def run_body_def is_ready_def
      handleRequestWillBeSent_def handleLoadingFailed_def startsWith_def Let_def
      initial_page_def ex_willBeSent_def ex_options_def)

text \<open>
  C6, amended. The Aborted set only grows: over any sequence of events it keeps every
  element, and neither \<open>_forgetRequest\<close> nor any handler removes one. A handler changes the
  set only when it is \<open>_handleLoadingFailed\<close> with \<open>errorText\<close> \<open>net::ERR_ABORTED\<close> for a
  request that is in the registry, and then it adds that request's id. On a page reached
  from the initial one this is the \<open>requestId\<close> of the event: when the request-sent latch
  of the id is resolved, the delivery of the event adds the id exactly if the text is
  \<open>net::ERR_ABORTED\<close> and the registry holds the request; when the latch is not resolved
  the handler is suspended, and it does the same when \<open>Network.requestWillBeSent\<close> for the
  id arrives and its handler has run. For a request that is not in the registry nothing
  is added.
\<close>

theorem aborted_only_grows:
  "aborted (page_net pg) \<subseteq> aborted (page_net (run_events e opts evs pg))
   \<and> aborted (forgetRequest requestId interceptId keepPending n) = aborted n
   \<and> (aborted (fst (handler_body e opts ev n)) = aborted n
      \<or> (\<exists>lf request. ev = LoadingFailed lf \<and> lf_errorText lf = ''net::ERR_ABORTED''
            \<and> map_of (requests n) (lf_requestId lf) = Some request
            \<and> aborted (fst (handler_body e opts ev n)) = insert (req_requestId request) (aborted n)))
   \<and> settled (run_events e opts evs initial_page)
   \<and> keys_ok (page_net (run_events e opts evs initial_page))
   \<and> (settled pg \<and> keys_ok (page_net pg) \<and> lf_requestId lf \<in> sent_latch (page_net pg) \<longrightarrow>
        aborted (page_net (deliver e opts (LoadingFailed lf) pg)) =
          (if lf_errorText lf = ''net::ERR_ABORTED''
              \<and> map_of (requests (page_net pg)) (lf_requestId lf) \<noteq> None
           then insert (lf_requestId lf) (aborted (page_net pg))
           else aborted (page_net pg)))
   \<and> (lf_requestId lf \<notin> sent_latch (page_net pg) \<longrightarrow>
        deliver e opts (LoadingFailed lf) pg = pg\<lparr>waiting := waiting pg @ [LoadingFailed lf]\<rparr>)
   \<and> (settled pg \<and> keys_ok (page_net pg)
        \<and> \<not> startsWith (rq_url (rwbs_request x)) ''data:''
        \<and> rwbs_requestId x = lf_requestId lf
        \<and> lf_requestId lf \<notin> sent_latch (page_net pg)
        \<and> filter (\<lambda>w. awaits w = Some (RequestWillBeSentLatch (lf_requestId lf))) (waiting pg)
            = [LoadingFailed lf] \<longrightarrow>
        aborted (page_net (deliver e opts (RequestWillBeSent x) pg)) =
          (if lf_errorText lf = ''net::ERR_ABORTED''
              \<and> map_of (requests (fst (handleRequestWillBeSent e opts x (page_net pg))))
                   (lf_requestId lf) \<noteq> None
           then insert (lf_requestId lf) (aborted (page_net pg))
           else aborted (page_net pg)))"
proof (intro conjI impI)
  show "aborted (page_net pg) \<subseteq> aborted (page_net (run_events e opts evs pg))"
    by (rule run_events_aborted_mono)
  show "aborted (forgetRequest requestId interceptId keepPending n) = aborted n"
    by (rule forgetRequest_aborted)
  show "aborted (fst (handler_body e opts ev n)) = aborted n
      \<or> (\<exists>lf request. ev = LoadingFailed lf \<and> lf_errorText lf = ''net::ERR_ABORTED''
            \<and> map_of (requests n) (lf_requestId lf) = Some request
            \<and> aborted (fst (handler_body e opts ev n)) = insert (req_requestId request) (aborted n))"
    by (rule handler_body_aborted)
  show "settled (run_events e opts evs initial_page)"
    by (rule settled_run_events [OF settled_initial])
  show "keys_ok (page_net (run_events e opts evs initial_page))"
    by (rule keys_ok_run_events [OF keys_ok_initial])
next
  assume a: "settled pg \<and> keys_ok (page_net pg) \<and> lf_requestId lf \<in> sent_latch (page_net pg)"
  then have d: "page_net (deliver e opts (LoadingFailed lf) pg) = handleLoadingFailed lf (page_net pg)"
    by (intro deliver_loadingFailed_runs) simp_all
  from a have k: "keys_ok (page_net pg)" by simp
  show "aborted (page_net (deliver e opts (LoadingFailed lf) pg)) =
          (if lf_errorText lf = ''net::ERR_ABORTED''
              \<and> map_of (requests (page_net pg)) (lf_requestId lf) \<noteq> None
           then insert (lf_requestId lf) (aborted (page_net pg))
           else aborted (page_net pg))"
    unfolding d handleLoadingFailed_adds [OF k] ..
next
  assume "lf_requestId lf \<notin> sent_latch (page_net pg)"
  then show "deliver e opts (LoadingFailed lf) pg = pg\<lparr>waiting := waiting pg @ [LoadingFailed lf]\<rparr>"
    by (intro deliver_suspends) (simp_all add: is_ready_def)
next
  let ?n1 = "fst (handleRequestWillBeSent e opts x (page_net pg))"
  assume a: "settled pg \<and> keys_ok (page_net pg)
        \<and> \<not> startsWith (rq_url (rwbs_request x)) ''data:''
        \<and> rwbs_requestId x = lf_requestId lf
        \<and> lf_requestId lf \<notin> sent_latch (page_net pg)
        \<and> filter (\<lambda>w. awaits w = Some (RequestWillBeSentLatch (lf_requestId lf))) (waiting pg)
            = [LoadingFailed lf]"
  then have d: "page_net (deliver e opts (RequestWillBeSent x) pg) = handleLoadingFailed lf ?n1"
    by (intro deliver_loadingFailed_resumes) simp_all
  have k: "keys_ok ?n1"
    using a keys_ok_handler_body [of "page_net pg" e opts "RequestWillBeSent x"] by simp
  have ab: "aborted ?n1 = aborted (page_net pg)"
    by (rule handleRequestWillBeSent_aborted)
  show "aborted (page_net (deliver e opts (RequestWillBeSent x) pg)) =
          (if lf_errorText lf = ''net::ERR_ABORTED''
              \<and> map_of (requests ?n1) (lf_requestId lf) \<noteq> None
           then insert (lf_requestId lf) (aborted (page_net pg))
           else aborted (page_net pg))"
    unfolding d handleLoadingFailed_adds [OF k] ab ..
qed

theorem aborted_only_grows_witness:
  "aborted (page_net (deliver ex_env
       \<lparr>opt_authorization = None, captureMockedServiceWorker = True,
        opt_intercept = Some (ex_intercept None False)\<rparr>
       (LoadingFailed \<lparr>lf_requestId = ''r1'', lf_errorText = ''net::ERR_ABORTED''\<rparr>)
       (run_events ex_env
         \<lparr>opt_authorization = None, captureMockedServiceWorker = True,
          opt_intercept = Some (ex_intercept None False)\<rparr>
         [RequestWillBeSent (ex_willBeSent ''http://cdn.ex/a.css'')] initial_page)))
     = {''r1''}
   \<and> aborted (page_net (deliver ex_env
       \<lparr>opt_authorization = None, captureMockedServiceWorker = True,
        opt_intercept = Some (ex_intercept None False)\<rparr>
       (RequestWillBeSent (ex_willBeSent ''http://cdn.ex/a.css''))
       (initial_page\<lparr>waiting :=
          [LoadingFailed \<lparr>lf_requestId = ''r1'', lf_errorText = ''net::ERR_ABORTED''\<rparr>]\<rparr>)))
     = {''r1''}"
proof -
  let ?opts = "\<lparr>opt_authorization = None, captureMockedServiceWorker = True,
                 opt_intercept = Some (ex_intercept None False)\<rparr>"
  let ?x = "ex_willBeSent ''http://cdn.ex/a.css''"
  let ?lf = "\<lparr>lf_requestId = ''r1'', lf_errorText = ''net::ERR_ABORTED''\<rparr>"
  let ?pg = "run_events ex_env ?opts [RequestWillBeSent ?x] initial_page"
  let ?pw = "initial_page\<lparr>waiting := [LoadingFailed ?lf]\<rparr>"
  have n: "page_net ?pg = \<lparr>requests = [(''r1'', Request ''http://cdn.ex/a.css'' ''GET'' [] (Some ''Other'')
                                    ''r1'' ''r1'' [] None)],
                  pending = [''r1'' \<mapsto> ?x],
                  authentications = {}, aborted = {}, sent_latch = {''r1''}, response_latch = {}\<rparr>"
    by (simp add: run_events_def deliver_def release_def run_body_def is_ready_def
        handleRequestWillBeSent_def handleRequest_def startsWith_def Let_def
        initial_page_def ex_willBeSent_def)
  note T1 = aborted_only_grows [of initial_page ex_env ?opts "[RequestWillBeSent ?x]"
              "''r1''" "''r1''" False "page_net initial_page" "RequestWillBeSent ?x" ?lf ?x]
  note T2 = aborted_only_grows [of ?pg ex_env ?opts "[RequestWillBeSent ?x]"
              "''r1''" "''r1''" False "page_net initial_page" "RequestWillBeSent ?x" ?lf ?x]
  note T3 = aborted_only_grows [of ?pw ex_env ?opts "[RequestWillBeSent ?x]"
              "''r1''" "''r1''" False "page_net initial_page" "RequestWillBeSent ?x" ?lf ?x]
  from T1 have reach: "settled ?pg" "keys_ok (page_net ?pg)" by simp_all
  have "lf_requestId ?lf \<in> sent_latch (page_net ?pg)" by (simp add: n)
  with T2 reach have "aborted (page_net (deliver ex_env ?opts (LoadingFailed ?lf) ?pg)) =
          (if lf_errorText ?lf = ''net::ERR_ABORTED''
              \<and> map_of (requests (page_net ?pg)) (lf_requestId ?lf) \<noteq> None
           then insert (lf_requestId ?lf) (aborted (page_net ?pg))
           else aborted (page_net ?pg))"
    by blast
  then have 1: "aborted (page_net (deliver ex_env ?opts (LoadingFailed ?lf) ?pg)) = {''r1''}"
    by (simp add: n)
  have hyp: "settled ?pw \<and> keys_ok (page_net ?pw)
        \<and> \<not> startsWith (rq_url (rwbs_request ?x)) ''data:''
        \<and> rwbs_requestId ?x = lf_requestId ?lf
        \<and> lf_requestId ?lf \<notin> sent_latch (page_net ?pw)
        \<and> filter (\<lambda>w. awaits w = Some (RequestWillBeSentLatch (lf_requestId ?lf))) (waiting ?pw)
            = [LoadingFailed ?lf]"
    by (simp add: settled_def keys_ok_def is_ready_def startsWith_def initial_page_def
        ex_willBeSent_def)
  with T3 have "aborted (page_net (deliver ex_env ?opts (RequestWillBeSent ?x) ?pw)) =
          (if lf_errorText ?lf = ''net::ERR_ABORTED''
              \<and> map_of (requests (fst (handleRequestWillBeSent ex_env ?opts ?x (page_net ?pw))))
                   (lf_requestId ?lf) \<noteq> None
           then insert (lf_requestId ?lf) (aborted (page_net ?pw))
           else aborted (page_net ?pw))"
    by blast
  then have 2: "aborted (page_net (deliver ex_env ?opts (RequestWillBeSent ?x) ?pw)) = {''r1''}"
    by (simp add: handleRequestWillBeSent_def handleRequest_def startsWith_def Let_def
        initial_page_def ex_willBeSent_def)
  from 1 2 show ?thesis by blast
qed

section \<open>C7: the guarded send\<close>

text \<open>
  C7: when the params of an outbound call carry a request id (a truthy \<open>requestId\<close>) that
  is in the Aborted set, \<open>send\<close> throws the error \<open>Request was aborted by browser\<close> and
  nothing reaches the session; in every other case the method and the params go to
  \<open>session.send\<close> unchanged and its answer is the result.
\<close>

theorem send_guards_aborted:
  "(p_requestId p = Some rid \<and> rid \<noteq> [] \<and> rid \<in> aborted net
      \<longrightarrow> send net s m p = (Inl ''Request was aborted by browser'', []))
   \<and> (\<not> (\<exists>rid. p_requestId p = Some rid \<and> rid \<noteq> [] \<and> rid \<in> aborted net)
      \<longrightarrow> send net s m p = (reply s m p, [Send m p (reply s m p)]))"
  by (auto simp: send_def isAborted_def session_send_def ABORTED_MESSAGE_def split: option.splits)

theorem send_guards_aborted_witness:
  "send (ex_net\<lparr>aborted := {''r1''}\<rparr>) ex_session ''Fetch.continueRequest''
        \<lparr>p_requestId = Some ''r1'', p_payload = ContinueRequest\<rparr>
     = (Inl ''Request was aborted by browser'', [])
   \<and> send ex_net ex_session ''Fetch.continueRequest''
        \<lparr>p_requestId = Some ''r1'', p_payload = ContinueRequest\<rparr>
     = (Inr \<lparr>result_body = ''abc'', result_base64Encoded = False\<rparr>,
        [Send ''Fetch.continueRequest'' \<lparr>p_requestId = Some ''r1'', p_payload = ContinueRequest\<rparr>
           (Inr \<lparr>result_body = ''abc'', result_base64Encoded = False\<rparr>)])"
  using send_guards_aborted [of "\<lparr>p_requestId = Some ''r1'', p_payload = ContinueRequest\<rparr>" "''r1''"
          "ex_net\<lparr>aborted := {''r1''}\<rparr>" ex_session "''Fetch.continueRequest''"]
        send_guards_aborted [of "\<lparr>p_requestId = Some ''r1'', p_payload = ContinueRequest\<rparr>" "''r1''"
          ex_net ex_session "''Fetch.continueRequest''"]
  by (simp add: ex_net_def ex_session_def)

section \<open>C8: fonts are requested directly\<close>

lemma opt_includes_truthy: "opt_includes d ''font'' \<Longrightarrow> truthy d"
  by (cases d) (auto simp: opt_includes_def)

lemma capture_font:
  assumes "req_response request = Some resp"
    and "hostnameMatches e (allowedHostnames ic) url"
    and "response_buffer e net resp = (Inr b, effs)"
    and "b \<noteq> []" and "length b \<le> 26214400"
    and "resp_status resp \<in> {200, 201, 301, 302, 304, 307, 308}"
    and "enableJavaScript ic \<or> req_type request \<in>
           Some ` {''Document'', ''Stylesheet'', ''Image'', ''Media'', ''Font'', ''Other''}"
    and "url_origin_pathname e url = Some u"
    and "opt_includes (effective_mime resp (mime_lookup e u)) ''font''
         \<or> opt_includes (mime_lookup e u) ''font''"
  shows "capture e opts ic net request url =
           (case makeDirectRequest e opts request of
              (Inl err, effs') \<Rightarrow> (Threw err, effs @ effs')
            | (Inr b', effs') \<Rightarrow>
                (Captured (createResource e url b' (effective_mime resp (mime_lookup e u))
                   (resp_status resp)
                   (map (\<lambda>(k, v). (k, split_on (CHR 0x0A) v)) (resp_headers resp))),
                 effs @ effs'))"
proof -
  have t: "\<not> (\<not> enableJavaScript ic \<and>
            \<not> (case req_type request of None \<Rightarrow> False | Some t \<Rightarrow> t \<in> set ALLOWED_RESOURCES))"
    using assms(7) by (auto simp: ALLOWED_RESOURCES_def)
  have st: "resp_status resp \<in> set ALLOWED_STATUSES"
    using assms(6) by (simp add: ALLOWED_STATUSES_def)
  have f: "opt_includes (effective_mime resp (mime_lookup e u)) ''font''
           \<or> (truthy (mime_lookup e u) \<and> opt_includes (mime_lookup e u) ''font'')"
    using assms(9) opt_includes_truthy by blast
  show ?thesis
    using assms(1-5,8) t st f
    by (auto simp: capture_def MAX_RESOURCE_SIZE_value Let_def)
qed

text \<open>
  When a response passes the capture filters and the effective or the inferred MIME type
  contains \<open>font\<close>, the capturer requests \<open>request.url\<close> directly, with the request's own
  headers and, when a user name is configured, \<open>Authorization: Basic\<close> with the base64 of
  \<open>username:password\<close> set on them; the resource is built from the body of that request,
  not from the browser's, and a failing request fails the capture.
\<close>

lemma font_direct_request:
  assumes "req_response request = Some resp"
    and "hostnameMatches e (allowedHostnames ic) url"
    and "response_buffer e net resp = (Inr b, effs)"
    and "b \<noteq> []" and "length b \<le> 26214400"
    and "resp_status resp \<in> {200, 201, 301, 302, 304, 307, 308}"
    and "enableJavaScript ic \<or> req_type request \<in>
           Some ` {''Document'', ''Stylesheet'', ''Image'', ''Media'', ''Font'', ''Other''}"
    and "url_origin_pathname e url = Some u"
    and "opt_includes (effective_mime resp (mime_lookup e u)) ''font''
         \<or> opt_includes (mime_lookup e u) ''font''"
    and "hs = (case opt_authorization opts of
                 Some a \<Rightarrow>
                   (case username a of
                      Some un \<Rightarrow>
                        if un \<noteq> []
                        then AList.update ''Authorization''
                               (''Basic '' @ base64 e (un @ '':'' @
                                  (case password a of Some pw \<Rightarrow> pw | None \<Rightarrow> [])))
                               (req_headers request)
                        else req_headers request
                    | None \<Rightarrow> req_headers request)
               | None \<Rightarrow> req_headers request)"
  shows "capture e opts ic net request url =
           (case makeRequest e (req_url request) hs of
              Inl err \<Rightarrow> (Threw err, effs @ [DirectRequest (req_url request) hs])
            | Inr b' \<Rightarrow>
                (Captured (createResource e url b' (effective_mime resp (mime_lookup e u))
                   (resp_status resp)
                   (map (\<lambda>(k, v). (k, split_on (CHR 0x0A) v)) (resp_headers resp))),
                 effs @ [DirectRequest (req_url request) hs]))"
proof -
  have md: "makeDirectRequest e opts request =
              (makeRequest e (req_url request) hs, [DirectRequest (req_url request) hs])"
    unfolding assms(10)
    by (simp add: makeDirectRequest_def Let_def split: option.splits)
  show ?thesis
    by (simp add: capture_font [OF assms(1-9)] md split: sum.splits)
qed

text \<open>
  C8: during capture a font is re-fetched directly over HTTP, with a Basic
  \<open>Authorization\<close> header whenever credentials are configured. The code does not keep this
  for credentials that have a password and no user name: \<open>_handleAuthRequired\<close> answers an
  authentication challenge with them (its test is \<open>username || password\<close>), but
  \<open>makeDirectRequest\<close> tests \<open>authorization?.username\<close> alone and requests the font
  without the header.
\<close>

theorem font_refetch_password_only:
  "capture ex_env (ex_options (Some \<lparr>username = None, password = Some ''secret''\<rparr>) None)
        (ex_intercept None False) ex_net
        (ex_request ''http://cdn.ex/f.woff2'' (Some (ex_response 200 ''font/woff2'')))
        ''http://cdn.ex/f.woff2''
     = (Captured
          \<lparr>res_url = ''http://cdn.ex/f.woff2'', res_content = ''wire'',
           res_mimetype = Some ''font/woff2'', res_sha = ''sha'', res_status = Some 200,
           res_headers = Some [(''content-type'', [''font/woff2''])],
           res_root = False, res_provided = False\<rparr>,
        [Send ''Network.getResponseBody'' \<lparr>p_requestId = Some ''r1'', p_payload = GetResponseBody\<rparr>
           (Inr \<lparr>result_body = ''abc'', result_base64Encoded = False\<rparr>),
         DirectRequest ''http://cdn.ex/f.woff2'' []])
   \<and> snd (handleAuthRequired (ex_options (Some \<lparr>username = None, password = Some ''secret''\<rparr>) None)
            ex_session \<lparr>ar_requestId = ''i1''\<rparr> ex_net)
     = [Send ''Fetch.continueWithAuth''
          \<lparr>p_requestId = Some ''i1'',
           p_payload = ContinueWithAuth ''ProvideCredentials'' None (Some ''secret'')\<rparr>
          (Inr \<lparr>result_body = ''abc'', result_base64Encoded = False\<rparr>)]"
  by (simp add: capture_def makeDirectRequest_def handleAuthRequired_def
      response_buffer_def send_def session_send_def isAborted_def
      effective_mime_def opt_includes_def Let_def
      MAX_RESOURCE_SIZE_def ALLOWED_STATUSES_def ALLOWED_RESOURCES_def
      ex_env_def ex_intercept_def ex_net_def ex_request_def ex_response_def ex_session_def
      ex_options_def)

section \<open>C9: what loading-finished hands to saveResource when the cache holds a resource\<close>

text \<open>
  C9 as stated fails: when the cached resource is neither root nor provided, caching is
  disabled and the capture succeeds (no filter returns early), \<open>saveResource\<close> is invoked
  with the newly captured resource, not with the one \<open>getResource\<close> returned.
\<close>

theorem cached_resource_saved_counterexample:
  "getResource (ex_intercept (Some ex_resource) True)
      (originURL ex_env (ex_request ''http://cdn.ex/a.css'' (Some (ex_response 200 ''text/css''))))
     = Some ex_resource
   \<and> (\<exists>r. fst (capture ex_env (ex_options None (Some (ex_intercept (Some ex_resource) True)))
                 (ex_intercept (Some ex_resource) True) ex_net
                 (ex_request ''http://cdn.ex/a.css'' (Some (ex_response 200 ''text/css'')))
                 ''http://cdn.ex/a.css'') = Captured r)
   \<and> SaveResource ex_resource \<notin>
       set (snd (handleLoadingFinished ex_env
                   (ex_options None (Some (ex_intercept (Some ex_resource) True))) ''r1''
                   (ex_net\<lparr>requests :=
                      [(''r1'', ex_request ''http://cdn.ex/a.css'' (Some (ex_response 200 ''text/css'')))]\<rparr>)))"
  by (simp add: handleLoadingFinished_def saveResponseResource_def capture_def capture_needed_def
      save_if_present_def
      response_buffer_def send_def session_send_def isAborted_def originURL_def
      effective_mime_def opt_includes_def
      MAX_RESOURCE_SIZE_def ALLOWED_STATUSES_def ALLOWED_RESOURCES_def
      ex_env_def ex_intercept_def ex_net_def ex_request_def ex_response_def ex_session_def
      ex_resource_def ex_options_def)

text \<open>
  C9, amended. On a loading-finished for a tracked request whose origin URL has a resource
  in the cache: if the capture is not run (the resource is root or provided, or caching is
  enabled), the only thing done is one call of \<open>saveResource\<close> with that resource. If the
  capture is run, \<open>saveResource\<close> is invoked with that resource when the capture throws,
  with the newly captured resource when the capture succeeds, and not at all when a filter
  returns early.
\<close>

theorem cached_resource_saved:
  assumes "map_of (requests net) requestId = Some request"
    and "opt_intercept opts = Some ic"
    and "getResource ic (originURL e request) = Some r"
  shows "(\<not> capture_needed ic (Some r) \<longrightarrow>
            snd (handleLoadingFinished e opts requestId net) = [SaveResource r])
         \<and> (capture_needed ic (Some r) \<longrightarrow>
            filter is_save (snd (handleLoadingFinished e opts requestId net)) =
              (case fst (capture e opts ic net request (originURL e request)) of
                 Skipped _ \<Rightarrow> []
               | Threw _ \<Rightarrow> [SaveResource r]
               | Captured r' \<Rightarrow> [SaveResource r']))"
proof -
  obtain out effs where c: "capture e opts ic net request (originURL e request) = (out, effs)"
    by (cases "capture e opts ic net request (originURL e request)")
  have f: "filter is_save effs = []"
    using filter_save_capture [of e opts ic net request "originURL e request"] c by simp
  show ?thesis
    using assms c f
    by (cases out)
       (simp_all add: handleLoadingFinished_def saveResponseResource_def Let_def
          save_if_present_def is_save_def)
qed

theorem cached_resource_saved_witness:
  "snd (handleLoadingFinished ex_env
          (ex_options None (Some (ex_intercept (Some ex_resource) False))) ''r1''
          (ex_net\<lparr>requests :=
             [(''r1'', ex_request ''http://cdn.ex/a.css'' (Some (ex_response 200 ''text/css'')))]\<rparr>))
     = [SaveResource ex_resource]"
  using cached_resource_saved [of
          "ex_net\<lparr>requests :=
             [(''r1'', ex_request ''http://cdn.ex/a.css'' (Some (ex_response 200 ''text/css'')))]\<rparr>"
          "''r1''" "ex_request ''http://cdn.ex/a.css'' (Some (ex_response 200 ''text/css''))"
          "ex_options None (Some (ex_intercept (Some ex_resource) False))"
          "ex_intercept (Some ex_resource) False" ex_env ex_resource]
  by (simp add: ex_options_def ex_intercept_def ex_net_def capture_needed_def ex_resource_def)

section \<open>C10: a data URL leaves the request-sent latch unresolved\<close>

lemma handler_body_latches:
  assumes "only_data r ev" and "\<not> waits_for r ev"
    and "r \<notin> sent_latch n" and "r \<notin> response_latch n"
  shows "r \<notin> sent_latch (fst (handler_body e opts ev n))
         \<and> r \<notin> response_latch (fst (handler_body e opts ev n))"
proof (cases ev)
  case (RequestWillBeSent x)
  show ?thesis
  proof (cases "startsWith (rq_url (rwbs_request x)) ''data:''")
    case True
    with RequestWillBeSent assms(3,4) show ?thesis
      by (simp add: handleRequestWillBeSent_data)
  next
    case False
    with RequestWillBeSent assms(1) have "rwbs_requestId x \<noteq> r" by (simp add: only_data_def)
    with RequestWillBeSent assms(3,4) handleRequestWillBeSent_latches [of e opts x n]
    show ?thesis by auto
  qed
next
  case (ResponseReceived s x)
  with assms(2) have "rr_requestId x \<noteq> r" by (simp add: waits_for_def)
  with ResponseReceived assms(3,4) show ?thesis
    by (simp add: handleResponseReceived_def Let_def split: option.splits)
next
  case (EventSourceMessageReceived x)
  with assms(3,4) show ?thesis
    by (simp add: handleEventSourceMessageReceived_def forget_latches split: option.splits)
next
  case (LoadingFinished x)
  with assms(3,4) show ?thesis
    by (simp add: handleLoadingFinished_def forget_latches split: option.splits)
next
  case (LoadingFailed x)
  with assms(3,4) show ?thesis
    by (simp add: handleLoadingFailed_def forget_latches split: option.splits)
next
  case (RequestPaused s x late)
  with assms(3,4) show ?thesis
    by (simp add: handleRequestPaused_def Let_def handleRequest_latches split: option.splits)
next
  case (AuthRequired s x)
  with assms(3,4) show ?thesis
    by (simp add: handleAuthRequired_def Let_def)
qed

lemma run_body_latches:
  assumes "only_data r ev" and "\<not> waits_for r ev"
    and "r \<notin> sent_latch (page_net pg)" and "r \<notin> response_latch (page_net pg)"
  shows "r \<notin> sent_latch (page_net (run_body e opts ev pg))
         \<and> r \<notin> response_latch (page_net (run_body e opts ev pg))"
  using handler_body_latches [OF assms, of e opts]
  by (cases "handler_body e opts ev (page_net pg)") (simp add: run_body_def)

lemma fold_run_body_latches:
  assumes "\<forall>w \<in> set ws. only_data r w \<and> \<not> waits_for r w"
    and "r \<notin> sent_latch (page_net pg)" and "r \<notin> response_latch (page_net pg)"
  shows "r \<notin> sent_latch (page_net (fold (run_body e opts) ws pg))
         \<and> r \<notin> response_latch (page_net (fold (run_body e opts) ws pg))
         \<and> waiting (fold (run_body e opts) ws pg) = waiting pg"
  using assms
proof (induction ws arbitrary: pg)
  case Nil
  then show ?case by simp
next
  case (Cons w ws)
  from Cons.prems have w: "only_data r w" "\<not> waits_for r w" by simp_all
  from run_body_latches [OF w Cons.prems(2,3), of e opts]
  have 1: "r \<notin> sent_latch (page_net (run_body e opts w pg))"
    and 2: "r \<notin> response_latch (page_net (run_body e opts w pg))" by simp_all
  from Cons.prems(1) have 3: "\<forall>w \<in> set ws. only_data r w \<and> \<not> waits_for r w" by simp
  from Cons.IH [OF 3 1 2] show ?case by (simp add: run_body_waiting)
qed

lemma ready_not_waiting_for:
  "r \<notin> sent_latch n \<Longrightarrow> r \<notin> response_latch n \<Longrightarrow> is_ready n w \<Longrightarrow> \<not> waits_for r w"
  by (auto simp: is_ready_def waits_for_def)

lemma release_latches:
  assumes "\<forall>w \<in> set (waiting pg). only_data r w"
    and "r \<notin> sent_latch (page_net pg)" and "r \<notin> response_latch (page_net pg)"
  shows "r \<notin> sent_latch (page_net (release e opts pg))
         \<and> r \<notin> response_latch (page_net (release e opts pg))
         \<and> filter (waits_for r) (waiting (release e opts pg)) = filter (waits_for r) (waiting pg)
         \<and> (\<forall>w \<in> set (waiting (release e opts pg)). only_data r w)"
proof -
  let ?ready = "filter (is_ready (page_net pg)) (waiting pg)"
  let ?rest = "filter (\<lambda>w. \<not> is_ready (page_net pg) w) (waiting pg)"
  have a: "\<forall>w \<in> set ?ready. only_data r w \<and> \<not> waits_for r w"
    using assms ready_not_waiting_for [of r "page_net pg"] by auto
  from fold_run_body_latches [OF a, of "pg\<lparr>waiting := ?rest\<rparr>" e opts] assms(2,3)
  have f: "r \<notin> sent_latch (page_net (release e opts pg))"
          "r \<notin> response_latch (page_net (release e opts pg))"
          "waiting (release e opts pg) = ?rest"
    by (simp_all add: release_def)
  have "filter (waits_for r) ?rest = filter (waits_for r) (waiting pg)"
    using ready_not_waiting_for [OF assms(2,3)] by (auto intro: filter_cong)
  with f assms(1) show ?thesis by auto
qed

lemma deliver_latches:
  assumes "only_data r ev" and "\<forall>w \<in> set (waiting pg). only_data r w"
    and "r \<notin> sent_latch (page_net pg)" and "r \<notin> response_latch (page_net pg)"
  shows "r \<notin> sent_latch (page_net (deliver e opts ev pg))
         \<and> r \<notin> response_latch (page_net (deliver e opts ev pg))
         \<and> filter (waits_for r) (waiting (deliver e opts ev pg))
             = filter (waits_for r) (waiting pg) @ filter (\<lambda>w. waits_for r w \<and> registered opts w) [ev]
         \<and> (\<forall>w \<in> set (waiting (deliver e opts ev pg)). only_data r w)"
proof (cases "registered opts ev")
  case False
  with assms show ?thesis by (simp add: deliver_def)
next
  case True
  show ?thesis
  proof (cases "is_ready (page_net pg) ev")
    case False
    with True assms show ?thesis by (simp add: deliver_def)
  next
    case ready: True
    then have nw: "\<not> waits_for r ev" using assms(3,4) by (rule ready_not_waiting_for [rotated 2])
    let ?p1 = "run_body e opts ev pg"
    from run_body_latches [OF assms(1) nw assms(3,4), of e opts]
    have 1: "r \<notin> sent_latch (page_net ?p1)" "r \<notin> response_latch (page_net ?p1)" by simp_all
    have w1: "\<forall>w \<in> set (waiting ?p1). only_data r w"
      using assms(2) by (simp add: run_body_waiting)
    let ?p2 = "release e opts ?p1"
    from release_latches [OF w1 1, of e opts]
    have 2: "r \<notin> sent_latch (page_net ?p2)" "r \<notin> response_latch (page_net ?p2)"
      and f2: "filter (waits_for r) (waiting ?p2) = filter (waits_for r) (waiting pg)"
      and w2: "\<forall>w \<in> set (waiting ?p2). only_data r w"
      by (simp_all add: run_body_waiting)
    from release_latches [OF w2 2, of e opts] f2
    show ?thesis using True ready nw by (simp add: deliver_def)
  qed
qed

lemma run_events_latches:
  assumes "\<forall>ev \<in> set evs. only_data r ev" and "\<forall>w \<in> set (waiting pg). only_data r w"
    and "r \<notin> sent_latch (page_net pg)" and "r \<notin> response_latch (page_net pg)"
  shows "r \<notin> sent_latch (page_net (run_events e opts evs pg))
         \<and> r \<notin> response_latch (page_net (run_events e opts evs pg))
         \<and> filter (waits_for r) (waiting (run_events e opts evs pg))
             = filter (waits_for r) (waiting pg) @ filter (\<lambda>w. waits_for r w \<and> registered opts w) evs"
  using assms
proof (induction evs arbitrary: pg)
  case Nil
  then show ?case by (simp add: run_events_def)
next
  case (Cons ev evs)
  from Cons.prems(1) have ev: "only_data r ev" and evs: "\<forall>ev \<in> set evs. only_data r ev" by simp_all
  from deliver_latches [OF ev Cons.prems(2,3,4), of e opts]
  have d: "r \<notin> sent_latch (page_net (deliver e opts ev pg))"
          "r \<notin> response_latch (page_net (deliver e opts ev pg))"
    and f: "filter (waits_for r) (waiting (deliver e opts ev pg))
             = filter (waits_for r) (waiting pg) @ filter (\<lambda>w. waits_for r w \<and> registered opts w) [ev]"
    and w: "\<forall>w \<in> set (waiting (deliver e opts ev pg)). only_data r w"
    by simp_all
  from Cons.IH [OF evs w d] f show ?case by (simp add: run_events_def)
qed

text \<open>
  C10. For a \<open>Network.requestWillBeSent\<close> whose URL starts with \<open>data:\<close> the handler
  returns with the Network unchanged and nothing done: no Pending entry, no call of the
  decider (the registry is unchanged, no command is sent), the latch stays as it was.
  Consequently, as long as every \<open>requestWillBeSent\<close> for a request id carries a data URL,
  neither of its latches is ever resolved, and every handler that awaits one of them, those
  suspended before and those delivered since, is still suspended, in arrival order.
\<close>

theorem data_url_latch:
  "(startsWith (rq_url (rwbs_request x)) ''data:'' \<longrightarrow>
      handleRequestWillBeSent e opts x n = (n, []))
   \<and> (r \<notin> sent_latch (page_net pg) \<and> r \<notin> response_latch (page_net pg)
       \<and> (\<forall>ev \<in> set evs \<union> set (waiting pg). only_data r ev) \<longrightarrow>
      r \<notin> sent_latch (page_net (run_events e opts evs pg))
      \<and> r \<notin> response_latch (page_net (run_events e opts evs pg))
      \<and> filter (waits_for r) (waiting (run_events e opts evs pg))
          = filter (waits_for r) (waiting pg) @ filter (\<lambda>w. waits_for r w \<and> registered opts w) evs)"
proof (intro conjI impI)
  assume "startsWith (rq_url (rwbs_request x)) ''data:''"
  then show "handleRequestWillBeSent e opts x n = (n, [])"
    by (rule handleRequestWillBeSent_data)
next
  assume a: "r \<notin> sent_latch (page_net pg) \<and> r \<notin> response_latch (page_net pg)
       \<and> (\<forall>ev \<in> set evs \<union> set (waiting pg). only_data r ev)"
  then have 1: "\<forall>ev \<in> set evs. only_data r ev" and 2: "\<forall>w \<in> set (waiting pg). only_data r w"
    and 3: "r \<notin> sent_latch (page_net pg)" and 4: "r \<notin> response_latch (page_net pg)"
    by auto
  from run_events_latches [OF 1 2 3 4, of e opts]
  show "r \<notin> sent_latch (page_net (run_events e opts evs pg))"
    and "r \<notin> response_latch (page_net (run_events e opts evs pg))"
    and "filter (waits_for r) (waiting (run_events e opts evs pg))
          = filter (waits_for r) (waiting pg) @ filter (\<lambda>w. waits_for r w \<and> registered opts w) evs"
    by simp_all
qed

theorem data_url_latch_witness:
  "handleRequestWillBeSent ex_env (ex_options None (Some (ex_intercept None False)))
      (ex_willBeSent ''data:text/plain,hi'') ex_net = (ex_net, [])
   \<and> ''r1'' \<notin> sent_latch (page_net (run_events ex_env (ex_options None (Some (ex_intercept None False)))
        [RequestWillBeSent (ex_willBeSent ''data:text/plain,hi''),
         LoadingFailed \<lparr>lf_requestId = ''r1'', lf_errorText = ''net::ERR_FAILED''\<rparr>,
         LoadingFinished ''r1'']
        initial_page))
   \<and> filter (waits_for ''r1'')
        (waiting (run_events ex_env (ex_options None (Some (ex_intercept None False)))
           [RequestWillBeSent (ex_willBeSent ''data:text/plain,hi''),
            LoadingFailed \<lparr>lf_requestId = ''r1'', lf_errorText = ''net::ERR_FAILED''\<rparr>,
            LoadingFinished ''r1'']
           initial_page))
     = [LoadingFailed \<lparr>lf_requestId = ''r1'', lf_errorText = ''net::ERR_FAILED''\<rparr>,
        LoadingFinished ''r1'']"
  using data_url_latch [of "ex_willBeSent ''data:text/plain,hi''" ex_env
          "ex_options None (Some (ex_intercept None False))" ex_net "''r1''" initial_page
          "[RequestWillBeSent (ex_willBeSent ''data:text/plain,hi''),
            LoadingFailed \<lparr>lf_requestId = ''r1'', lf_errorText = ''net::ERR_FAILED''\<rparr>,
            LoadingFinished ''r1'']"]
  by (simp add: startsWith_def only_data_def waits_for_def ex_willBeSent_def initial_page_def)

end
